theory Spec2Isabelle
  imports Main "HOL-Library.Word"
begin

unbundle bit_operations_syntax

section \<open>Machine integers, faults and the bus\<close>

type_synonym u8 = "8 word"
type_synonym u16 = "16 word"
type_synonym u32 = "32 word"

text \<open>
  What ends a run of the C program other than a normal return: a failed \<open>assert\<close>, an
  access the C standard leaves undefined (an index past the end of an array, a number
  dereferenced as a host pointer), and a value that depends on where the host placed
  the CPU structure (a host pointer used as a number).
\<close>

datatype fault = Assertion_failed | Undefined_behaviour | Layout_dependent

definition bindE :: "fault + 'a \<Rightarrow> ('a \<Rightarrow> fault + 'b) \<Rightarrow> fault + 'b" where
  "bindE m f = (case m of Inl e \<Rightarrow> Inl e | Inr x \<Rightarrow> f x)"

text \<open>
  C's \<open>%\<close> on \<open>int\<close> truncates towards zero: the remainder has the sign of the dividend.
\<close>

definition c_rem :: "int \<Rightarrow> int \<Rightarrow> int" where
  "c_rem a b = sgn a * (\<bar>a\<bar> mod \<bar>b\<bar>)"

text \<open>
  The bus of \<open>bus.c\<close>: a byte array indexed by the address masked to 20 bits. The array
  is taken to have the 1 MiB that \<open>main\<close> allocates (\<open>bus_new(0x100000)\<close>), so every masked
  address is inside it.
\<close>

record bus =
  memory :: "nat \<Rightarrow> u8"

definition bus_read_byte :: "bus \<Rightarrow> nat \<Rightarrow> u8" where
  "bus_read_byte b a = memory b (a AND 0xFFFFF)"

definition bus_read_short :: "bus \<Rightarrow> nat \<Rightarrow> u16" where
  "bus_read_short b a =
     ucast (memory b (a AND 0xFFFFF)) OR push_bit 8 (ucast (memory b ((a + 1) AND 0xFFFFF)))"

definition bus_write_byte :: "bus \<Rightarrow> nat \<Rightarrow> u8 \<Rightarrow> bus" where
  "bus_write_byte b a d = b\<lparr>memory := (memory b)(a AND 0xFFFFF := d)\<rparr>"

definition bus_write_short :: "bus \<Rightarrow> nat \<Rightarrow> u16 \<Rightarrow> bus" where
  "bus_write_short b a d =
     (let b1 = b\<lparr>memory := (memory b)(a AND 0xFFFFF := ucast (d AND 0xFF))\<rparr>
      in b1\<lparr>memory := (memory b1)((a + 1) AND 0xFFFFF := ucast (drop_bit 8 d))\<rparr>)"

section \<open>The CPU structure\<close>

text \<open>
  Modelled from the spec: the header that goes with this revision of the program is not
  among the sources (\<open>cpu8086.h\<close> there is of an earlier revision: it has no
  \<open>CPU8086_FETCH_ADDRESS\<close> or \<open>CPU8086_DECODE_LOC\<close>, four operand categories, a 16-bit
  \<open>immediate\<close> and none of the fields \<open>lo_segment\<close>, \<open>hi_segment\<close>, \<open>repeat\<close>, \<open>test\<close>). The
  stages and operand categories below are those the program uses, in the order in which
  the spec lists them; the fields missing from the header have the types the spec and
  the program's use of them give.
\<close>

datatype cpu8086_stage =
    CPU8086_READY
  | CPU8086_FETCH_MODRM
  | CPU8086_FETCH_IMM
  | CPU8086_FETCH_ADDRESS
  | CPU8086_DECODE_LOC
  | CPU8086_EXECUTING

datatype location_type =
    DECODED_ACCUMULATOR
  | DECODED_REGISTER
  | DECODED_SEGREG
  | DECODED_MEMORY
  | DECODED_IMMEDIATE
  | DECODED_STRING
  | DECODED_NULL

text \<open>
  A \<open>uintptr_t\<close> of the program holds one of three things: a plain number (a physical
  address, or zero), a pointer \<open>(uint8_t*)&cpu->ax + k\<close>, \<open>k\<close> bytes on from the first
  register, or a pointer \<open>(uint8_t*)&cpu->immediate + k\<close> into the immediate field.
\<close>

datatype uintptr = Num nat | Regs_at nat | Immediate_at nat

record location =
  type :: location_type
  address :: uintptr
  virtual :: bool

text \<open>
  The registers AX, CX, DX, BX, SP, BP, SI, DI, ES, CS, SS, DS lie one after the other in
  the structure, two bytes each, and the unions lay AL over the first byte of AX and AH
  over the second (a little-endian host, as the program assumes). \<open>regs\<close> is that block
  of 24 bytes. \<open>q_r\<close>, \<open>q_w\<close> are the two-bit fields, \<open>hl\<close> and \<open>mt\<close> the one-bit fields.
\<close>

record cpu8086 =
  bus :: bus
  regs :: "nat \<Rightarrow> u8"
  ip :: u16
  flags :: u16
  q :: "nat \<Rightarrow> u16"
  q_r :: nat
  q_w :: nat
  hl :: bool
  mt :: bool
  current_ip :: u16
  cycles :: u8
  biu_prefetch_cycles :: u8
  prefix_g1 :: u8
  prefix_g2 :: u8
  opcode_byte :: u16
  disp8_byte :: u16
  disp16_byte :: u16
  imm8_byte :: u16
  imm16_byte :: u16
  lo_segment :: u16
  hi_segment :: u16
  immediate :: u32
  rm :: uintptr
  reg :: uintptr
  stage :: cpu8086_stage
  modrm_byte :: u16
  destination :: location
  source :: location
  modrm_is_segreg :: bool
  repeat :: bool
  test :: bool

definition AX :: nat where "AX = 0"
definition CX :: nat where "CX = 1"
definition DX :: nat where "DX = 2"
definition BX :: nat where "BX = 3"
definition SP :: nat where "SP = 4"
definition BP :: nat where "BP = 5"
definition SI :: nat where "SI = 6"
definition DI :: nat where "DI = 7"
definition ES :: nat where "ES = 8"
definition CS :: nat where "CS = 9"
definition SS :: nat where "SS = 10"
definition DS :: nat where "DS = 11"

definition FLAG_CARRY :: u16 where "FLAG_CARRY = push_bit 0 1"
definition FLAG_PARITY :: u16 where "FLAG_PARITY = push_bit 2 1"
definition FLAG_AUXILIARY :: u16 where "FLAG_AUXILIARY = push_bit 4 1"
definition FLAG_ZERO :: u16 where "FLAG_ZERO = push_bit 6 1"
definition FLAG_SIGN :: u16 where "FLAG_SIGN = push_bit 7 1"
definition FLAG_TRAP :: u16 where "FLAG_TRAP = push_bit 8 1"
definition FLAG_INTENABLE :: u16 where "FLAG_INTENABLE = push_bit 9 1"
definition FLAG_DIRECTION :: u16 where "FLAG_DIRECTION = push_bit 10 1"
definition FLAG_OVERFLOW :: u16 where "FLAG_OVERFLOW = push_bit 11 1"

text \<open>Word and byte views of the register block: \<open>cpu->ax\<close>, \<open>cpu->al\<close>, \<open>cpu->ah\<close>, ...\<close>

definition get16 :: "(nat \<Rightarrow> u8) \<Rightarrow> nat \<Rightarrow> u16" where
  "get16 f k = ucast (f k) OR push_bit 8 (ucast (f (k + 1)))"

definition set16 :: "(nat \<Rightarrow> u8) \<Rightarrow> nat \<Rightarrow> u16 \<Rightarrow> (nat \<Rightarrow> u8)" where
  "set16 f k v = f(k := ucast v, k + 1 := ucast (drop_bit 8 v))"

definition reg16 :: "cpu8086 \<Rightarrow> nat \<Rightarrow> u16" where
  "reg16 cpu r = get16 (regs cpu) (2 * r)"

definition set_reg16 :: "cpu8086 \<Rightarrow> nat \<Rightarrow> u16 \<Rightarrow> cpu8086" where
  "set_reg16 cpu r v = cpu\<lparr>regs := set16 (regs cpu) (2 * r) v\<rparr>"

definition al :: "cpu8086 \<Rightarrow> u8" where "al cpu = regs cpu 0"
definition ah :: "cpu8086 \<Rightarrow> u8" where "ah cpu = regs cpu 1"

definition set_al :: "cpu8086 \<Rightarrow> u8 \<Rightarrow> cpu8086" where
  "set_al cpu v = cpu\<lparr>regs := (regs cpu)(0 := v)\<rparr>"

definition set_ah :: "cpu8086 \<Rightarrow> u8 \<Rightarrow> cpu8086" where
  "set_ah cpu v = cpu\<lparr>regs := (regs cpu)(1 := v)\<rparr>"

section \<open>Stack, register pointers, prefetch queue\<close>

definition cpu8086_push :: "cpu8086 \<Rightarrow> u16 \<Rightarrow> cpu8086" where
  "cpu8086_push cpu w =
     (let cpu1 = set_reg16 cpu SP (reg16 cpu SP - 2)
      in cpu1\<lparr>bus := bus_write_short (bus cpu1)
                 (push_bit 4 (unat (reg16 cpu1 SS)) + unat (reg16 cpu1 SP)) w\<rparr>)"

definition cpu8086_pop :: "cpu8086 \<Rightarrow> u16 \<times> cpu8086" where
  "cpu8086_pop cpu =
     (let w = bus_read_short (bus cpu) (push_bit 4 (unat (reg16 cpu SS)) + unat (reg16 cpu SP))
      in (w, set_reg16 cpu SP (reg16 cpu SP + 2)))"

definition REGISTER_COUNT :: nat where "REGISTER_COUNT = 12"
definition REG_FIELD :: nat where "REG_FIELD = 3"

definition cpu8086_reg_word :: "nat \<Rightarrow> fault + uintptr" where
  "cpu8086_reg_word r =
     (if r < push_bit REGISTER_COUNT 1 then Inr (Regs_at (2 * r)) else Inl Assertion_failed)"

definition cpu8086_reg_byte :: "nat \<Rightarrow> fault + uintptr" where
  "cpu8086_reg_byte r =
     (if r < push_bit REG_FIELD 1
      then Inr (Regs_at ((r AND 3) * 2 + (r AND 4)))
      else Inl Assertion_failed)"

definition cpu8086_prefetch_dequeue :: "cpu8086 \<Rightarrow> fault + (u8 \<times> cpu8086)" where
  "cpu8086_prefetch_dequeue cpu =
     (if 3 \<le> q_r cpu then Inl Undefined_behaviour
      else
        let rd = (ucast (drop_bit (if hl cpu then 8 else 0) (q cpu (q_r cpu)) AND 0xFF) :: u8);
            cpu1 = (if hl cpu
                    then (let c = cpu\<lparr>q_r := (q_r cpu + 1) mod 3\<rparr>
                          in c\<lparr>mt := (q_r c = q_w c)\<rparr>)
                    else cpu);
            cpu2 = cpu1\<lparr>hl := \<not> hl cpu1\<rparr>
        in Inr (rd, cpu2\<lparr>current_ip := current_ip cpu2 + 1\<rparr>))"

definition cpu8086_jump :: "cpu8086 \<Rightarrow> u16 \<Rightarrow> u16 \<Rightarrow> cpu8086" where
  "cpu8086_jump cpu cs' ip' =
     (let cpu1 = cpu\<lparr>hl := False, mt := False, q_r := q_w cpu\<rparr>;
          cpu2 = (if biu_prefetch_cycles cpu1 \<noteq> 3
                  then cpu1\<lparr>biu_prefetch_cycles := biu_prefetch_cycles cpu1 + 4\<rparr>
                  else cpu1);
          cpu3 = set_reg16 cpu2 CS cs'
      in cpu3\<lparr>ip := ip', current_ip := ip'\<rparr>)"

section \<open>Flags\<close>

definition cpu8086_getflag :: "cpu8086 \<Rightarrow> u16 \<Rightarrow> bool" where
  "cpu8086_getflag cpu flag = (flags cpu AND flag \<noteq> 0)"

definition cpu8086_setflag :: "cpu8086 \<Rightarrow> u16 \<Rightarrow> bool \<Rightarrow> cpu8086" where
  "cpu8086_setflag cpu flag toggle =
     (if toggle then cpu\<lparr>flags := flags cpu OR flag\<rparr>
      else cpu\<lparr>flags := flags cpu AND NOT flag\<rparr>)"

definition mask_buffer :: "bool \<Rightarrow> u32" where
  "mask_buffer is_word = (if is_word then 0xFFFF else 0xFF)"

definition sign_bit :: "bool \<Rightarrow> nat" where
  "sign_bit is_word = (if is_word then 15 else 7)"

text \<open>The parity table, built as the macros \<open>P2\<close>, \<open>P4\<close>, \<open>P6\<close> build it.\<close>

definition P2 :: "bool \<Rightarrow> bool list" where
  "P2 n = [n, \<not> n, \<not> n, n]"

definition P4 :: "bool \<Rightarrow> bool list" where
  "P4 n = P2 n @ P2 (\<not> n) @ P2 (\<not> n) @ P2 n"

definition P6 :: "bool \<Rightarrow> bool list" where
  "P6 n = P4 n @ P4 (\<not> n) @ P4 (\<not> n) @ P4 n"

definition parity_table :: "bool list" where
  "parity_table = P6 True @ P6 False @ P6 False @ P6 True"

definition calculate_parity :: "u32 \<Rightarrow> bool \<Rightarrow> bool" where
  "calculate_parity v is_word =
     (if is_word
      then parity_table ! unat (v AND 0xFF) \<noteq> parity_table ! unat (drop_bit 8 v AND 0xFF)
      else parity_table ! unat (v AND 0xFF))"

definition cpu8086_setpzs_flags :: "cpu8086 \<Rightarrow> u16 \<Rightarrow> bool \<Rightarrow> cpu8086" where
  "cpu8086_setpzs_flags cpu result is_word =
     (let cpu1 = cpu8086_setflag cpu FLAG_PARITY (calculate_parity (ucast result) is_word);
          cpu2 = cpu8086_setflag cpu1 FLAG_ZERO ((ucast result :: u32) AND mask_buffer is_word = 0)
      in cpu8086_setflag cpu2 FLAG_SIGN (drop_bit (sign_bit is_word) result AND 1 \<noteq> 0))"

section \<open>Opcode tables\<close>

datatype opcode_location =
    LOC_AX | LOC_CX | LOC_DX | LOC_BX | LOC_SP | LOC_BP | LOC_SI | LOC_DI
  | LOC_ES | LOC_CS | LOC_SS | LOC_DS
  | LOC_AL | LOC_CL | LOC_DL | LOC_BL | LOC_AH | LOC_CH | LOC_DH | LOC_BH
  | LOC_IMM | LOC_IMM8
  | LOC_RM | LOC_REG | LOC_SREG
  | LOC_ADDR | LOC_SEGOFF
  | LOC_STRSRC | LOC_STRDST
  | LOC_NULL

text \<open>The value of the enumerator, which \<open>loc_set\<close> uses as a register number.\<close>

fun loc_number :: "opcode_location \<Rightarrow> nat" where
  "loc_number LOC_AX = 0" | "loc_number LOC_CX = 1" | "loc_number LOC_DX = 2"
| "loc_number LOC_BX = 3" | "loc_number LOC_SP = 4" | "loc_number LOC_BP = 5"
| "loc_number LOC_SI = 6" | "loc_number LOC_DI = 7" | "loc_number LOC_ES = 8"
| "loc_number LOC_CS = 9" | "loc_number LOC_SS = 10" | "loc_number LOC_DS = 11"
| "loc_number LOC_AL = 12" | "loc_number LOC_CL = 13" | "loc_number LOC_DL = 14"
| "loc_number LOC_BL = 15" | "loc_number LOC_AH = 16" | "loc_number LOC_CH = 17"
| "loc_number LOC_DH = 18" | "loc_number LOC_BH = 19" | "loc_number LOC_IMM = 20"
| "loc_number LOC_IMM8 = 21" | "loc_number LOC_RM = 22" | "loc_number LOC_REG = 23"
| "loc_number LOC_SREG = 24" | "loc_number LOC_ADDR = 25" | "loc_number LOC_SEGOFF = 26"
| "loc_number LOC_STRSRC = 27" | "loc_number LOC_STRDST = 28" | "loc_number LOC_NULL = 29"

text \<open>The handlers a table entry can point to; a null pointer is \<open>None\<close>.\<close>

datatype handler =
    Op_aaa | Op_aas | Op_adc | Op_add | Op_and | Op_callfar | Op_cbw | Op_cmp | Op_cwd
  | Op_daa | Op_das | Op_dec | Op_imm | Op_inc
  | Op_ja | Op_jae | Op_jb | Op_jbe | Op_je | Op_jg | Op_jge | Op_jl | Op_jle | Op_jne
  | Op_jno | Op_jnp | Op_jns | Op_jo | Op_jp | Op_js
  | Op_lahf | Op_lea | Op_lds | Op_les | Op_mov | Op_or | Op_pop | Op_popf | Op_push
  | Op_pushf | Op_retnear | Op_retfar | Op_sahf | Op_sbb | Op_sub | Op_test | Op_wait
  | Op_xchg | Op_xor

record opcode =
  name :: string
  op_destination :: opcode_location
  op_source :: opcode_location
  is_word :: bool
  is_string :: bool
  func :: "handler option"

definition opc ::
  "string \<Rightarrow> opcode_location \<Rightarrow> opcode_location \<Rightarrow> bool \<Rightarrow> bool \<Rightarrow> handler option \<Rightarrow> opcode"
where
  "opc n d s w str f =
     \<lparr>name = n, op_destination = d, op_source = s, is_word = w, is_string = str, func = f\<rparr>"

text \<open>0x00 to 0x0F\<close>

definition op_table_00 :: "opcode list" where
  "op_table_00 =
    [opc ''ADD'' LOC_RM LOC_REG False False (Some Op_add),
     opc ''ADD'' LOC_RM LOC_REG True False (Some Op_add),
     opc ''ADD'' LOC_REG LOC_RM False False (Some Op_add),
     opc ''ADD'' LOC_REG LOC_RM True False (Some Op_add),
     opc ''ADD'' LOC_AL LOC_IMM False False (Some Op_add),
     opc ''ADD'' LOC_AX LOC_IMM True False (Some Op_add),
     opc ''PUSH'' LOC_ES LOC_NULL True False (Some Op_push),
     opc ''POP'' LOC_ES LOC_NULL True False (Some Op_pop),
     opc ''OR'' LOC_RM LOC_REG False False (Some Op_or),
     opc ''OR'' LOC_RM LOC_REG True False (Some Op_or),
     opc ''OR'' LOC_REG LOC_RM False False (Some Op_or),
     opc ''OR'' LOC_REG LOC_RM True False (Some Op_or),
     opc ''OR'' LOC_AL LOC_IMM False False (Some Op_or),
     opc ''OR'' LOC_AX LOC_IMM True False (Some Op_or),
     opc ''PUSH'' LOC_CS LOC_NULL True False (Some Op_push),
     opc ''ILLEG.'' LOC_NULL LOC_NULL True False None]"

text \<open>0x10 to 0x1F\<close>

definition op_table_10 :: "opcode list" where
  "op_table_10 =
    [opc ''ADC'' LOC_RM LOC_REG False False (Some Op_adc),
     opc ''ADC'' LOC_RM LOC_REG True False (Some Op_adc),
     opc ''ADC'' LOC_REG LOC_RM False False (Some Op_adc),
     opc ''ADC'' LOC_REG LOC_RM True False (Some Op_adc),
     opc ''ADC'' LOC_AL LOC_IMM False False (Some Op_adc),
     opc ''ADC'' LOC_AX LOC_IMM True False (Some Op_adc),
     opc ''PUSH'' LOC_SS LOC_NULL True False (Some Op_push),
     opc ''POP'' LOC_SS LOC_NULL True False (Some Op_pop),
     opc ''SBB'' LOC_RM LOC_REG False False (Some Op_sbb),
     opc ''SBB'' LOC_RM LOC_REG True False (Some Op_sbb),
     opc ''SBB'' LOC_REG LOC_RM False False (Some Op_sbb),
     opc ''SBB'' LOC_REG LOC_RM True False (Some Op_sbb),
     opc ''SBB'' LOC_AL LOC_IMM False False (Some Op_sbb),
     opc ''SBB'' LOC_AX LOC_IMM True False (Some Op_sbb),
     opc ''PUSH'' LOC_DS LOC_NULL True False (Some Op_push),
     opc ''POP'' LOC_DS LOC_NULL True False (Some Op_pop)]"

text \<open>0x20 to 0x2F\<close>

definition op_table_20 :: "opcode list" where
  "op_table_20 =
    [opc ''AND'' LOC_RM LOC_REG False False (Some Op_and),
     opc ''AND'' LOC_RM LOC_REG True False (Some Op_and),
     opc ''AND'' LOC_REG LOC_RM False False (Some Op_and),
     opc ''AND'' LOC_REG LOC_RM True False (Some Op_and),
     opc ''AND'' LOC_AL LOC_IMM False False (Some Op_and),
     opc ''AND'' LOC_AX LOC_IMM True False (Some Op_and),
     opc ''ES:'' LOC_NULL LOC_NULL False False None,
     opc ''DAA'' LOC_NULL LOC_NULL False False (Some Op_daa),
     opc ''SUB'' LOC_RM LOC_REG False False (Some Op_sub),
     opc ''SUB'' LOC_RM LOC_REG True False (Some Op_sub),
     opc ''SUB'' LOC_REG LOC_RM False False (Some Op_sub),
     opc ''SUB'' LOC_REG LOC_RM True False (Some Op_sub),
     opc ''SUB'' LOC_AL LOC_IMM False False (Some Op_sub),
     opc ''SUB'' LOC_AX LOC_IMM True False (Some Op_sub),
     opc ''CS:'' LOC_NULL LOC_NULL False False None,
     opc ''DAS'' LOC_NULL LOC_NULL False False (Some Op_das)]"

text \<open>0x30 to 0x3F\<close>

definition op_table_30 :: "opcode list" where
  "op_table_30 =
    [opc ''XOR'' LOC_RM LOC_REG False False (Some Op_xor),
     opc ''XOR'' LOC_RM LOC_REG True False (Some Op_xor),
     opc ''XOR'' LOC_REG LOC_RM False False (Some Op_xor),
     opc ''XOR'' LOC_REG LOC_RM True False (Some Op_xor),
     opc ''XOR'' LOC_AL LOC_IMM False False (Some Op_xor),
     opc ''XOR'' LOC_AX LOC_IMM True False (Some Op_xor),
     opc ''SS:'' LOC_NULL LOC_NULL False False None,
     opc ''AAA'' LOC_NULL LOC_NULL False False (Some Op_aaa),
     opc ''CMP'' LOC_RM LOC_REG False False (Some Op_cmp),
     opc ''CMP'' LOC_RM LOC_REG True False (Some Op_cmp),
     opc ''CMP'' LOC_REG LOC_RM False False (Some Op_cmp),
     opc ''CMP'' LOC_REG LOC_RM True False (Some Op_cmp),
     opc ''CMP'' LOC_AL LOC_IMM False False (Some Op_cmp),
     opc ''CMP'' LOC_AX LOC_IMM True False (Some Op_cmp),
     opc ''DS:'' LOC_NULL LOC_NULL False False None,
     opc ''AAS'' LOC_NULL LOC_NULL False False (Some Op_aas)]"

text \<open>0x40 to 0x4F\<close>

definition op_table_40 :: "opcode list" where
  "op_table_40 =
    [opc ''INC'' LOC_AX LOC_NULL True False (Some Op_inc),
     opc ''INC'' LOC_CX LOC_NULL True False (Some Op_inc),
     opc ''INC'' LOC_DX LOC_NULL True False (Some Op_inc),
     opc ''INC'' LOC_BX LOC_NULL True False (Some Op_inc),
     opc ''INC'' LOC_SP LOC_NULL True False (Some Op_inc),
     opc ''INC'' LOC_BP LOC_NULL True False (Some Op_inc),
     opc ''INC'' LOC_SI LOC_NULL True False (Some Op_inc),
     opc ''INC'' LOC_DI LOC_NULL True False (Some Op_inc),
     opc ''DEC'' LOC_AX LOC_NULL True False (Some Op_dec),
     opc ''DEC'' LOC_CX LOC_NULL True False (Some Op_dec),
     opc ''DEC'' LOC_DX LOC_NULL True False (Some Op_dec),
     opc ''DEC'' LOC_BX LOC_NULL True False (Some Op_dec),
     opc ''DEC'' LOC_SP LOC_NULL True False (Some Op_dec),
     opc ''DEC'' LOC_BP LOC_NULL True False (Some Op_dec),
     opc ''DEC'' LOC_SI LOC_NULL True False (Some Op_dec),
     opc ''DEC'' LOC_DI LOC_NULL True False (Some Op_dec)]"

text \<open>0x50 to 0x5F\<close>

definition op_table_50 :: "opcode list" where
  "op_table_50 =
    [opc ''PUSH'' LOC_AX LOC_NULL True False (Some Op_push),
     opc ''PUSH'' LOC_CX LOC_NULL True False (Some Op_push),
     opc ''PUSH'' LOC_DX LOC_NULL True False (Some Op_push),
     opc ''PUSH'' LOC_BX LOC_NULL True False (Some Op_push),
     opc ''PUSH'' LOC_SP LOC_NULL True False (Some Op_push),
     opc ''PUSH'' LOC_BP LOC_NULL True False (Some Op_push),
     opc ''PUSH'' LOC_SI LOC_NULL True False (Some Op_push),
     opc ''PUSH'' LOC_DI LOC_NULL True False (Some Op_push),
     opc ''POP'' LOC_AX LOC_NULL True False (Some Op_pop),
     opc ''POP'' LOC_CX LOC_NULL True False (Some Op_pop),
     opc ''POP'' LOC_DX LOC_NULL True False (Some Op_pop),
     opc ''POP'' LOC_BX LOC_NULL True False (Some Op_pop),
     opc ''POP'' LOC_SP LOC_NULL True False (Some Op_pop),
     opc ''POP'' LOC_BP LOC_NULL True False (Some Op_pop),
     opc ''POP'' LOC_SI LOC_NULL True False (Some Op_pop),
     opc ''POP'' LOC_DI LOC_NULL True False (Some Op_pop)]"

text \<open>0x60 to 0x6F\<close>

definition op_table_60 :: "opcode list" where
  "op_table_60 =
    [opc ''ILLEG.'' LOC_NULL LOC_NULL True False None,
     opc ''ILLEG.'' LOC_NULL LOC_NULL True False None,
     opc ''ILLEG.'' LOC_NULL LOC_NULL True False None,
     opc ''ILLEG.'' LOC_NULL LOC_NULL True False None,
     opc ''ILLEG.'' LOC_NULL LOC_NULL True False None,
     opc ''ILLEG.'' LOC_NULL LOC_NULL True False None,
     opc ''ILLEG.'' LOC_NULL LOC_NULL True False None,
     opc ''ILLEG.'' LOC_NULL LOC_NULL True False None,
     opc ''ILLEG.'' LOC_NULL LOC_NULL True False None,
     opc ''ILLEG.'' LOC_NULL LOC_NULL True False None,
     opc ''ILLEG.'' LOC_NULL LOC_NULL True False None,
     opc ''ILLEG.'' LOC_NULL LOC_NULL True False None,
     opc ''ILLEG.'' LOC_NULL LOC_NULL True False None,
     opc ''ILLEG.'' LOC_NULL LOC_NULL True False None,
     opc ''ILLEG.'' LOC_NULL LOC_NULL True False None,
     opc ''ILLEG.'' LOC_NULL LOC_NULL True False None]"

text \<open>0x70 to 0x7F\<close>

definition op_table_70 :: "opcode list" where
  "op_table_70 =
    [opc ''JO'' LOC_NULL LOC_IMM False False (Some Op_jo),
     opc ''JNO'' LOC_NULL LOC_IMM False False (Some Op_jno),
     opc ''JB'' LOC_NULL LOC_IMM False False (Some Op_jb),
     opc ''JAE'' LOC_NULL LOC_IMM False False (Some Op_jae),
     opc ''JE'' LOC_NULL LOC_IMM False False (Some Op_je),
     opc ''JNE'' LOC_NULL LOC_IMM False False (Some Op_jne),
     opc ''JBE'' LOC_NULL LOC_IMM False False (Some Op_jbe),
     opc ''JA'' LOC_NULL LOC_IMM False False (Some Op_ja),
     opc ''JS'' LOC_NULL LOC_IMM False False (Some Op_js),
     opc ''JNS'' LOC_NULL LOC_IMM False False (Some Op_jns),
     opc ''JP'' LOC_NULL LOC_IMM False False (Some Op_jp),
     opc ''JNP'' LOC_NULL LOC_IMM False False (Some Op_jnp),
     opc ''JL'' LOC_NULL LOC_IMM False False (Some Op_jl),
     opc ''JGE'' LOC_NULL LOC_IMM False False (Some Op_jge),
     opc ''JLE'' LOC_NULL LOC_IMM False False (Some Op_jle),
     opc ''JG'' LOC_NULL LOC_IMM False False (Some Op_jg)]"

text \<open>0x80 to 0x8F\<close>

definition op_table_80 :: "opcode list" where
  "op_table_80 =
    [opc ''IMM'' LOC_RM LOC_IMM False False (Some Op_imm),
     opc ''IMM'' LOC_RM LOC_IMM True False (Some Op_imm),
     opc ''IMM'' LOC_RM LOC_IMM False False (Some Op_imm),
     opc ''IMM'' LOC_RM LOC_IMM8 True False (Some Op_imm),
     opc ''TEST'' LOC_REG LOC_RM False False (Some Op_test),
     opc ''TEST'' LOC_REG LOC_RM True False (Some Op_test),
     opc ''XCHG'' LOC_REG LOC_RM False False (Some Op_xchg),
     opc ''XCHG'' LOC_REG LOC_RM True False (Some Op_xchg),
     opc ''MOV'' LOC_RM LOC_REG False False (Some Op_mov),
     opc ''MOV'' LOC_RM LOC_REG True False (Some Op_mov),
     opc ''MOV'' LOC_REG LOC_RM False False (Some Op_mov),
     opc ''MOV'' LOC_REG LOC_RM True False (Some Op_mov),
     opc ''MOV'' LOC_RM LOC_SREG True False (Some Op_mov),
     opc ''LEA'' LOC_REG LOC_RM True False (Some Op_lea),
     opc ''MOV'' LOC_SREG LOC_RM True False (Some Op_mov),
     opc ''POP'' LOC_RM LOC_NULL True False (Some Op_pop)]"

text \<open>0x90 to 0x9F\<close>

definition op_table_90 :: "opcode list" where
  "op_table_90 =
    [opc ''NOP'' LOC_AX LOC_AX True False (Some Op_xchg),
     opc ''XCHG'' LOC_CX LOC_AX True False (Some Op_xchg),
     opc ''XCHG'' LOC_DX LOC_AX True False (Some Op_xchg),
     opc ''XCHG'' LOC_BX LOC_AX True False (Some Op_xchg),
     opc ''XCHG'' LOC_SP LOC_AX True False (Some Op_xchg),
     opc ''XCHG'' LOC_BP LOC_AX True False (Some Op_xchg),
     opc ''XCHG'' LOC_SI LOC_AX True False (Some Op_xchg),
     opc ''XCHG'' LOC_DI LOC_AX True False (Some Op_xchg),
     opc ''CBW'' LOC_NULL LOC_NULL True False (Some Op_cbw),
     opc ''CWD'' LOC_NULL LOC_NULL True False (Some Op_cwd),
     opc ''CALL'' LOC_NULL LOC_SEGOFF True False (Some Op_callfar),
     opc ''WAIT'' LOC_NULL LOC_NULL False False (Some Op_wait),
     opc ''PUSHF'' LOC_NULL LOC_NULL False False (Some Op_pushf),
     opc ''POPF'' LOC_NULL LOC_NULL False False (Some Op_popf),
     opc ''SAHF'' LOC_NULL LOC_NULL False False (Some Op_sahf),
     opc ''LAHF'' LOC_NULL LOC_NULL False False (Some Op_lahf)]"

text \<open>0xA0 to 0xAF\<close>

definition op_table_A0 :: "opcode list" where
  "op_table_A0 =
    [opc ''MOV'' LOC_AL LOC_ADDR False False (Some Op_mov),
     opc ''MOV'' LOC_AX LOC_ADDR True False (Some Op_mov),
     opc ''MOV'' LOC_ADDR LOC_AL False False (Some Op_mov),
     opc ''MOV'' LOC_ADDR LOC_AX True False (Some Op_mov),
     opc ''MOVSB'' LOC_STRDST LOC_STRSRC False True (Some Op_mov),
     opc ''MOVSW'' LOC_STRDST LOC_STRSRC True True (Some Op_mov),
     opc ''CMPSB'' LOC_STRSRC LOC_STRDST False True (Some Op_cmp),
     opc ''CMPSW'' LOC_STRSRC LOC_STRDST True True (Some Op_cmp),
     opc ''TEST'' LOC_AL LOC_IMM False False (Some Op_test),
     opc ''TEST'' LOC_AX LOC_IMM True False (Some Op_test),
     opc ''STOSB'' LOC_STRDST LOC_AL False True (Some Op_mov),
     opc ''STOSW'' LOC_STRDST LOC_AX True True (Some Op_mov),
     opc ''LODSB'' LOC_AL LOC_STRSRC False True (Some Op_mov),
     opc ''LODSW'' LOC_AX LOC_STRSRC True True (Some Op_mov),
     opc ''SCASB'' LOC_AL LOC_STRDST False True (Some Op_cmp),
     opc ''SCASB'' LOC_AL LOC_STRDST True True (Some Op_cmp)]"

text \<open>0xB0 to 0xBF\<close>

definition op_table_B0 :: "opcode list" where
  "op_table_B0 =
    [opc ''MOV'' LOC_AL LOC_IMM False False (Some Op_mov),
     opc ''MOV'' LOC_CL LOC_IMM False False (Some Op_mov),
     opc ''MOV'' LOC_DL LOC_IMM False False (Some Op_mov),
     opc ''MOV'' LOC_BL LOC_IMM False False (Some Op_mov),
     opc ''MOV'' LOC_AH LOC_IMM False False (Some Op_mov),
     opc ''MOV'' LOC_CH LOC_IMM False False (Some Op_mov),
     opc ''MOV'' LOC_DH LOC_IMM False False (Some Op_mov),
     opc ''MOV'' LOC_BH LOC_IMM False False (Some Op_mov),
     opc ''MOV'' LOC_AX LOC_IMM True False (Some Op_mov),
     opc ''MOV'' LOC_CX LOC_IMM True False (Some Op_mov),
     opc ''MOV'' LOC_DX LOC_IMM True False (Some Op_mov),
     opc ''MOV'' LOC_BX LOC_IMM True False (Some Op_mov),
     opc ''MOV'' LOC_SP LOC_IMM True False (Some Op_mov),
     opc ''MOV'' LOC_BP LOC_IMM True False (Some Op_mov),
     opc ''MOV'' LOC_SI LOC_IMM True False (Some Op_mov),
     opc ''MOV'' LOC_DI LOC_IMM True False (Some Op_mov)]"

text \<open>0xC0 to 0xCF\<close>

definition op_table_C0 :: "opcode list" where
  "op_table_C0 =
    [opc ''ILLEG.'' LOC_NULL LOC_NULL True False None,
     opc ''ILLEG.'' LOC_NULL LOC_NULL True False None,
     opc ''RET'' LOC_NULL LOC_IMM True False (Some Op_retnear),
     opc ''RET'' LOC_NULL LOC_NULL True False (Some Op_retnear),
     opc ''LES'' LOC_REG LOC_RM True False (Some Op_les),
     opc ''LDS'' LOC_REG LOC_RM True False (Some Op_lds),
     opc ''MOV'' LOC_RM LOC_IMM False False (Some Op_mov),
     opc ''MOV'' LOC_RM LOC_IMM True False (Some Op_mov),
     opc ''ILLEG.'' LOC_NULL LOC_NULL True False None,
     opc ''ILLEG.'' LOC_NULL LOC_NULL True False None,
     opc ''RET'' LOC_NULL LOC_IMM True False (Some Op_retfar),
     opc ''RET'' LOC_NULL LOC_NULL True False (Some Op_retfar)]"

text \<open>The root opcode table: the rows above, 204 entries, the last for opcode 0xCB.\<close>

definition op_table :: "opcode list" where
  "op_table =
     op_table_00 @ op_table_10 @ op_table_20 @ op_table_30 @ op_table_40 @ op_table_50
     @ op_table_60 @ op_table_70 @ op_table_80 @ op_table_90 @ op_table_A0 @ op_table_B0
     @ op_table_C0"

text \<open>
  \<open>op_table[i]\<close>: an index past the last entry reads outside the array.
\<close>

definition op_table_at :: "nat \<Rightarrow> fault + opcode" where
  "op_table_at i = (if i < length op_table then Inr (op_table ! i) else Inl Undefined_behaviour)"

definition imm_table :: "opcode list" where
  "imm_table =
    [opc ''ADD'' LOC_NULL LOC_NULL False False (Some Op_add),
     opc ''OR'' LOC_NULL LOC_NULL False False (Some Op_or),
     opc ''ADC'' LOC_NULL LOC_NULL False False (Some Op_adc),
     opc ''SBB'' LOC_NULL LOC_NULL False False (Some Op_sbb),
     opc ''AND'' LOC_NULL LOC_NULL False False (Some Op_and),
     opc ''SUB'' LOC_NULL LOC_NULL False False (Some Op_sub),
     opc ''XOR'' LOC_NULL LOC_NULL False False (Some Op_xor),
     opc ''CMP'' LOC_NULL LOC_NULL False False (Some Op_cmp)]"

definition imm_table_at :: "nat \<Rightarrow> fault + opcode" where
  "imm_table_at i = (if i < length imm_table then Inr (imm_table ! i) else Inl Undefined_behaviour)"

section \<open>Reading and writing operand locations\<close>

text \<open>
  Bytes and words behind a host pointer (\<open>*(uint8_t*)p\<close>, \<open>*(uint16_t*)p\<close>), low byte
  first. A pointer computed from \<open>&cpu->ax\<close> is an offset into the structure: the first
  24 bytes are the twelve registers, and an index past DS (\<open>cpu8086_reg_word\<close> lets any
  index below \<open>1 << REGISTER_COUNT\<close> through) lands on the fields that follow them in
  the header, \<open>ip\<close> at byte 24, \<open>flags\<close> at byte 26 and the queue words \<open>q[0]\<close>, \<open>q[1]\<close>,
  \<open>q[2]\<close> at bytes 28, 30 and 32. After the queue come the bit-fields, laid out as the
  compiler chooses; an access from byte 34 on is left undefined. A pointer into the
  immediate is good for its 4 bytes; a plain number is no pointer.
\<close>

definition byte_of :: "u16 \<Rightarrow> nat \<Rightarrow> u8" where
  "byte_of w j = ucast (drop_bit (8 * j) w)"

definition with_byte :: "u16 \<Rightarrow> nat \<Rightarrow> u8 \<Rightarrow> u16" where
  "with_byte w j d = (w AND NOT (push_bit (8 * j) 0xFF)) OR push_bit (8 * j) (ucast d)"

definition struct_byte :: "cpu8086 \<Rightarrow> nat \<Rightarrow> fault + u8" where
  "struct_byte cpu k =
     (if k < 24 then Inr (regs cpu k)
      else if k < 26 then Inr (byte_of (ip cpu) (k - 24))
      else if k < 28 then Inr (byte_of (flags cpu) (k - 26))
      else if k < 34 then Inr (byte_of (q cpu ((k - 28) div 2)) ((k - 28) mod 2))
      else Inl Undefined_behaviour)"

definition struct_byte_set :: "cpu8086 \<Rightarrow> nat \<Rightarrow> u8 \<Rightarrow> fault + cpu8086" where
  "struct_byte_set cpu k d =
     (if k < 24 then Inr (cpu\<lparr>regs := (regs cpu)(k := d)\<rparr>)
      else if k < 26 then Inr (cpu\<lparr>ip := with_byte (ip cpu) (k - 24) d\<rparr>)
      else if k < 28 then Inr (cpu\<lparr>flags := with_byte (flags cpu) (k - 26) d\<rparr>)
      else if k < 34
      then Inr (cpu\<lparr>q := (q cpu)((k - 28) div 2 :=
                        with_byte (q cpu ((k - 28) div 2)) ((k - 28) mod 2) d)\<rparr>)
      else Inl Undefined_behaviour)"

definition host_read_byte :: "cpu8086 \<Rightarrow> uintptr \<Rightarrow> fault + u8" where
  "host_read_byte cpu p =
     (case p of
        Num n \<Rightarrow> Inl Undefined_behaviour
      | Regs_at k \<Rightarrow> if k < 24 then Inr (regs cpu k) else struct_byte cpu k
      | Immediate_at k \<Rightarrow>
          if k < 4 then Inr (ucast (drop_bit (8 * k) (immediate cpu)))
          else Inl Undefined_behaviour)"

definition host_read_word :: "cpu8086 \<Rightarrow> uintptr \<Rightarrow> fault + u16" where
  "host_read_word cpu p =
     (case p of
        Num n \<Rightarrow> Inl Undefined_behaviour
      | Regs_at k \<Rightarrow>
          if k + 1 < 24 then Inr (get16 (regs cpu) k)
          else bindE (struct_byte cpu k) (\<lambda>lo.
               bindE (struct_byte cpu (k + 1)) (\<lambda>hi.
                 Inr (ucast lo OR push_bit 8 (ucast hi))))
      | Immediate_at k \<Rightarrow>
          if k + 1 < 4 then Inr (ucast (drop_bit (8 * k) (immediate cpu)))
          else Inl Undefined_behaviour)"

definition host_write_byte :: "cpu8086 \<Rightarrow> uintptr \<Rightarrow> u8 \<Rightarrow> fault + cpu8086" where
  "host_write_byte cpu p d =
     (case p of
        Num n \<Rightarrow> Inl Undefined_behaviour
      | Regs_at k \<Rightarrow>
          if k < 24 then Inr (cpu\<lparr>regs := (regs cpu)(k := d)\<rparr>) else struct_byte_set cpu k d
      | Immediate_at k \<Rightarrow>
          if k < 4
          then Inr (cpu\<lparr>immediate := (immediate cpu AND NOT (push_bit (8 * k) 0xFF))
                                        OR push_bit (8 * k) (ucast d)\<rparr>)
          else Inl Undefined_behaviour)"

definition host_write_word :: "cpu8086 \<Rightarrow> uintptr \<Rightarrow> u16 \<Rightarrow> fault + cpu8086" where
  "host_write_word cpu p d =
     (case p of
        Num n \<Rightarrow> Inl Undefined_behaviour
      | Regs_at k \<Rightarrow>
          if k + 1 < 24 then Inr (cpu\<lparr>regs := set16 (regs cpu) k d\<rparr>)
          else bindE (struct_byte_set cpu k (ucast d)) (\<lambda>cpu.
                 struct_byte_set cpu (k + 1) (ucast (drop_bit 8 d)))
      | Immediate_at k \<Rightarrow>
          if k + 1 < 4
          then Inr (cpu\<lparr>immediate := (immediate cpu AND NOT (push_bit (8 * k) 0xFFFF))
                                        OR push_bit (8 * k) (ucast d)\<rparr>)
          else Inl Undefined_behaviour)"

text \<open>A \<open>uintptr_t\<close> read as a number: only a plain number is the same on every host.\<close>

definition uintptr_number :: "uintptr \<Rightarrow> fault + nat" where
  "uintptr_number p = (case p of Num n \<Rightarrow> Inr n | _ \<Rightarrow> Inl Layout_dependent)"

definition uintptr_add :: "uintptr \<Rightarrow> nat \<Rightarrow> uintptr" where
  "uintptr_add p n =
     (case p of Num a \<Rightarrow> Num (a + n) | Regs_at k \<Rightarrow> Regs_at (k + n)
      | Immediate_at k \<Rightarrow> Immediate_at (k + n))"

definition charge :: "cpu8086 \<Rightarrow> u8 \<Rightarrow> cpu8086" where
  "charge cpu n = cpu\<lparr>cycles := cycles cpu + n\<rparr>"

definition loc_read_byte :: "cpu8086 \<Rightarrow> location \<Rightarrow> fault + u8" where
  "loc_read_byte cpu loc =
     (if virtual loc
      then bindE (uintptr_number (address loc)) (\<lambda>a. Inr (bus_read_byte (bus cpu) a))
      else host_read_byte cpu (address loc))"

definition loc_read_word :: "cpu8086 \<Rightarrow> location \<Rightarrow> fault + (u16 \<times> cpu8086)" where
  "loc_read_word cpu loc =
     (if virtual loc
      then bindE (uintptr_number (address loc)) (\<lambda>a.
             let cpu1 = (if a AND 1 \<noteq> 0 then charge cpu 4 else cpu)
             in Inr (bus_read_short (bus cpu1) a, cpu1))
      else bindE (host_read_word cpu (address loc)) (\<lambda>w. Inr (w, cpu)))"

definition loc_write_byte :: "cpu8086 \<Rightarrow> location \<Rightarrow> u8 \<Rightarrow> fault + cpu8086" where
  "loc_write_byte cpu loc d =
     (if virtual loc
      then bindE (uintptr_number (address loc)) (\<lambda>a.
             Inr (cpu\<lparr>bus := bus_write_byte (bus cpu) a d\<rparr>))
      else host_write_byte cpu (address loc) d)"

definition loc_write_word :: "cpu8086 \<Rightarrow> location \<Rightarrow> u16 \<Rightarrow> fault + cpu8086" where
  "loc_write_word cpu loc d =
     (if virtual loc
      then bindE (uintptr_number (address loc)) (\<lambda>a.
             let cpu1 = (if a AND 1 \<noteq> 0 then charge cpu 4 else cpu)
             in Inr (cpu1\<lparr>bus := bus_write_short (bus cpu1) a d\<rparr>))
      else host_write_word cpu (address loc) d)"

definition loc_read :: "cpu8086 \<Rightarrow> location \<Rightarrow> fault + (u16 \<times> cpu8086)" where
  "loc_read cpu loc =
     bindE (op_table_at (unat (opcode_byte cpu))) (\<lambda>op.
       if is_word op then loc_read_word cpu loc
       else bindE (loc_read_byte cpu loc) (\<lambda>b. Inr (ucast b, cpu)))"

definition loc_write :: "cpu8086 \<Rightarrow> location \<Rightarrow> u16 \<Rightarrow> fault + cpu8086" where
  "loc_write cpu loc d =
     bindE (op_table_at (unat (opcode_byte cpu))) (\<lambda>op.
       if is_word op then loc_write_word cpu loc d
       else loc_write_byte cpu loc (ucast d))"

section \<open>Resolving operand descriptors\<close>

definition c_div :: "int \<Rightarrow> int \<Rightarrow> int" where
  "c_div a b = sgn a * sgn b * (\<bar>a\<bar> div \<bar>b\<bar>)"

definition PREFIX_G2_NONE :: u8 where "PREFIX_G2_NONE = 0x00"
definition PREFIX_G2_ES :: u8 where "PREFIX_G2_ES = 0x26"
definition PREFIX_G2_CS :: u8 where "PREFIX_G2_CS = 0x2E"
definition PREFIX_G2_SS :: u8 where "PREFIX_G2_SS = 0x36"
definition PREFIX_G2_DS :: u8 where "PREFIX_G2_DS = 0x3E"
definition PREFIX_G1_NONE :: u8 where "PREFIX_G1_NONE = 0x00"
definition PREFIX_G1_LOCK :: u8 where "PREFIX_G1_LOCK = 0xF0"
definition PREFIX_G1_REPNZ :: u8 where "PREFIX_G1_REPNZ = 0xF2"
definition PREFIX_G1_REPZ :: u8 where "PREFIX_G1_REPZ = 0xF3"

definition MOD_INDIRECT :: nat where "MOD_INDIRECT = 0"
definition MOD_DISP8 :: nat where "MOD_DISP8 = 1"
definition MOD_DISP16 :: nat where "MOD_DISP16 = 2"
definition MOD_REG :: nat where "MOD_REG = 3"

text \<open>The bit-fields of \<open>modrm_byte\<close>: \<open>rm\<close> in bits 0 to 2, \<open>reg\<close> in 3 to 5, \<open>mod\<close> in 6 and 7.\<close>

definition modrm_rm :: "cpu8086 \<Rightarrow> nat" where
  "modrm_rm cpu = unat (modrm_byte cpu AND 7)"

definition modrm_reg :: "cpu8086 \<Rightarrow> nat" where
  "modrm_reg cpu = unat (drop_bit 3 (modrm_byte cpu) AND 7)"

definition modrm_mod :: "cpu8086 \<Rightarrow> nat" where
  "modrm_mod cpu = unat (drop_bit 6 (modrm_byte cpu) AND 3)"

text \<open>
  The segment register a segment-override prefix selects:
  \<open>ES + (cpu->prefix_g2 - PREFIX_G2_ES) / 8\<close>, computed in \<open>int\<close> and stored in an
  \<open>unsigned\<close>.
\<close>

definition override_segment :: "cpu8086 \<Rightarrow> nat" where
  "override_segment cpu =
     nat ((int ES + c_div (uint (prefix_g2 cpu) - uint PREFIX_G2_ES) 8) mod 2 ^ 32)"

text \<open>
  \<open>loc_set\<close>. The cases \<open>LOC_STRSRC\<close> and \<open>LOC_STRDST\<close> have no \<open>break\<close>: \<open>LOC_STRSRC\<close> runs
  on into \<open>LOC_STRDST\<close> and that into \<open>LOC_NULL\<close>, so the later assignments win.
\<close>

definition loc_set :: "cpu8086 \<Rightarrow> location \<Rightarrow> opcode_location \<Rightarrow> fault + location" where
  "loc_set cpu loc t =
     (if t \<in> {LOC_AX, LOC_CX, LOC_DX, LOC_BX, LOC_SP, LOC_BP, LOC_SI, LOC_DI} then
        bindE (cpu8086_reg_word (loc_number t)) (\<lambda>p.
          Inr (loc\<lparr>type := (if t = LOC_AX then DECODED_ACCUMULATOR else DECODED_REGISTER),
                   address := p, virtual := False\<rparr>))
      else if t \<in> {LOC_ES, LOC_CS, LOC_SS, LOC_DS} then
        bindE (cpu8086_reg_word (loc_number t)) (\<lambda>p.
          Inr (loc\<lparr>type := DECODED_SEGREG, address := p, virtual := False\<rparr>))
      else if t \<in> {LOC_AL, LOC_CL, LOC_DL, LOC_BL, LOC_AH, LOC_CH, LOC_DH, LOC_BH} then
        bindE (cpu8086_reg_byte (loc_number t - loc_number LOC_AL)) (\<lambda>p.
          Inr (loc\<lparr>type := (if t = LOC_AL \<or> t = LOC_AH then DECODED_ACCUMULATOR
                            else DECODED_REGISTER),
                   address := p, virtual := False\<rparr>))
      else if t \<in> {LOC_IMM, LOC_IMM8, LOC_RM} then
        Inr (loc\<lparr>type := (if modrm_mod cpu \<noteq> MOD_REG then DECODED_MEMORY
                          else if modrm_is_segreg cpu then DECODED_SEGREG
                          else DECODED_REGISTER),
                 address := rm cpu, virtual := (modrm_mod cpu \<noteq> MOD_REG)\<rparr>)
      else if t \<in> {LOC_REG, LOC_SREG} then
        Inr (loc\<lparr>type := DECODED_REGISTER, address := reg cpu, virtual := False\<rparr>)
      else if t = LOC_ADDR then
        Inr (loc\<lparr>type := DECODED_MEMORY, address := Num (unat (immediate cpu)),
                 virtual := True\<rparr>)
      else if t = LOC_SEGOFF then
        Inr (loc\<lparr>type := DECODED_IMMEDIATE, address := Immediate_at 0, virtual := False\<rparr>)
      else if t = LOC_STRSRC then
        (let prefix = (if prefix_g2 cpu \<noteq> PREFIX_G2_NONE then override_segment cpu else DS)
         in bindE (cpu8086_reg_word prefix) (\<lambda>p.
            bindE (host_read_word cpu p) (\<lambda>seg.
              let loc1 = loc\<lparr>type := DECODED_STRING,
                               address := Num ((push_bit 4 (unat seg) + unat (reg16 cpu SI))
                                               AND 0xFFFFF),
                               virtual := True\<rparr>;
                  loc2 = loc1\<lparr>type := DECODED_STRING,
                                address := Num (push_bit 4 (unat (reg16 cpu ES))
                                                + unat (reg16 cpu DI)),
                                virtual := True\<rparr>
              in Inr (loc2\<lparr>type := DECODED_NULL\<rparr>))))
      else if t = LOC_STRDST then
        (let loc1 = loc\<lparr>type := DECODED_STRING,
                         address := Num (push_bit 4 (unat (reg16 cpu ES)) + unat (reg16 cpu DI)),
                         virtual := True\<rparr>
         in Inr (loc1\<lparr>type := DECODED_NULL\<rparr>))
      else Inr (loc\<lparr>type := DECODED_NULL\<rparr>))"

section \<open>Instruction handlers\<close>

text \<open>
  The handlers switch on \<open>(cpu->destination.type << 3) | cpu->source.type\<close>. The seven
  categories fit in three bits, so the key is the pair of categories.
\<close>

definition operand_types :: "cpu8086 \<Rightarrow> location_type \<times> location_type" where
  "operand_types cpu = (type (destination cpu), type (source cpu))"

text \<open>
  The cycle switch that \<open>op_adc\<close>, \<open>op_add\<close>, \<open>op_and\<close>, \<open>op_or\<close>, \<open>op_sbb\<close>, \<open>op_sub\<close> and
  \<open>op_xor\<close> each end with, the same text in all seven.
\<close>

definition alu_cycles :: "cpu8086 \<Rightarrow> fault + cpu8086" where
  "alu_cycles cpu =
     (let k = operand_types cpu in
      if k = (DECODED_REGISTER, DECODED_REGISTER) then Inr (charge cpu 3)
      else if k = (DECODED_REGISTER, DECODED_MEMORY) then Inr (charge cpu 9)
      else if k = (DECODED_MEMORY, DECODED_REGISTER) then Inr (charge cpu 16)
      else if k = (DECODED_ACCUMULATOR, DECODED_IMMEDIATE)
              \<or> k = (DECODED_REGISTER, DECODED_IMMEDIATE) then Inr (charge cpu 4)
      else if k = (DECODED_MEMORY, DECODED_IMMEDIATE) then Inr (charge cpu 17)
      else Inl Assertion_failed)"

definition op_aaa :: "opcode \<Rightarrow> cpu8086 \<Rightarrow> fault + cpu8086" where
  "op_aaa op cpu =
     (let old_al = (ucast (al cpu) :: u16);
          adjust = (unat (al cpu AND 0xF) > 9 \<or> cpu8086_getflag cpu FLAG_AUXILIARY);
          added = (if adjust then 6 else 0 :: u16);
          cpu = (if adjust
                 then (let cpu = set_ah cpu (ah cpu + 1);
                           cpu = set_al cpu (al cpu + ucast added);
                           cpu = cpu8086_setflag cpu FLAG_AUXILIARY True
                       in cpu8086_setflag cpu FLAG_CARRY True)
                 else (let cpu = cpu8086_setflag cpu FLAG_AUXILIARY False
                       in cpu8086_setflag cpu FLAG_CARRY False));
          cpu = set_al cpu (al cpu AND 0xF);
          cpu = cpu8086_setpzs_flags cpu (ucast (al cpu)) False;
          cpu = cpu8086_setflag cpu FLAG_OVERFLOW
                  ((ucast (al cpu) XOR old_al) AND (ucast (al cpu) XOR added) AND 0x80 \<noteq> 0)
      in Inr (charge cpu 4))"

definition op_aas :: "opcode \<Rightarrow> cpu8086 \<Rightarrow> fault + cpu8086" where
  "op_aas op cpu =
     (let old_al = (ucast (al cpu) :: u16);
          adjust = (unat (al cpu AND 0xF) > 9 \<or> cpu8086_getflag cpu FLAG_AUXILIARY);
          added = (if adjust then NOT 6 + 1 else 0 :: u16);
          cpu = (if adjust
                 then (let cpu = set_ah cpu (ah cpu - 1);
                           cpu = set_al cpu (al cpu + ucast added);
                           cpu = cpu8086_setflag cpu FLAG_AUXILIARY True
                       in cpu8086_setflag cpu FLAG_CARRY True)
                 else (let cpu = cpu8086_setflag cpu FLAG_AUXILIARY False
                       in cpu8086_setflag cpu FLAG_CARRY False));
          cpu = set_al cpu (al cpu AND 0xF);
          cpu = cpu8086_setpzs_flags cpu (ucast (al cpu)) False;
          cpu = cpu8086_setflag cpu FLAG_OVERFLOW
                  ((ucast (al cpu) XOR old_al) AND (ucast (al cpu) XOR added) AND 0x80 \<noteq> 0)
      in Inr (charge cpu 4))"


definition op_adc :: "opcode \<Rightarrow> cpu8086 \<Rightarrow> fault + cpu8086" where
  "op_adc op cpu =
     bindE (loc_read cpu (destination cpu)) (\<lambda>(dest, cpu).
     bindE (loc_read cpu (source cpu)) (\<lambda>(s, cpu).
       let src = (s + (if cpu8086_getflag cpu FLAG_CARRY then 1 else 0) :: u16);
           result = (ucast dest + ucast src :: u32) in
     bindE (loc_write cpu (destination cpu) (ucast result)) (\<lambda>cpu.
       let cpu = cpu8086_setpzs_flags cpu (ucast result) (is_word op);
           cpu = cpu8086_setflag cpu FLAG_CARRY (result > mask_buffer (is_word op));
           cpu = cpu8086_setflag cpu FLAG_AUXILIARY (unat (dest AND 0xF) + unat (src AND 0xF) > 0xF);
           cpu = cpu8086_setflag cpu FLAG_OVERFLOW
                   ((result XOR ucast dest) AND (result XOR ucast src)
                    AND push_bit (sign_bit (is_word op)) 1 \<noteq> 0)
       in alu_cycles cpu)))"


definition op_add :: "opcode \<Rightarrow> cpu8086 \<Rightarrow> fault + cpu8086" where
  "op_add op cpu =
     bindE (loc_read cpu (destination cpu)) (\<lambda>(dest, cpu).
     bindE (loc_read cpu (source cpu)) (\<lambda>(s, cpu).
       let src = (s :: u16);
           result = (ucast dest + ucast src :: u32) in
     bindE (loc_write cpu (destination cpu) (ucast result)) (\<lambda>cpu.
       let cpu = cpu8086_setpzs_flags cpu (ucast result) (is_word op);
           cpu = cpu8086_setflag cpu FLAG_CARRY (result > mask_buffer (is_word op));
           cpu = cpu8086_setflag cpu FLAG_AUXILIARY (unat (dest AND 0xF) + unat (src AND 0xF) > 0xF);
           cpu = cpu8086_setflag cpu FLAG_OVERFLOW
                   ((result XOR ucast dest) AND (result XOR ucast src)
                    AND push_bit (sign_bit (is_word op)) 1 \<noteq> 0)
       in alu_cycles cpu)))"


definition op_and :: "opcode \<Rightarrow> cpu8086 \<Rightarrow> fault + cpu8086" where
  "op_and op cpu =
     bindE (loc_read cpu (destination cpu)) (\<lambda>(dest, cpu).
     bindE (loc_read cpu (source cpu)) (\<lambda>(src, cpu).
       let result = (dest AND src :: u16) in
     bindE (loc_write cpu (destination cpu) result) (\<lambda>cpu.
       let cpu = cpu8086_setpzs_flags cpu result (is_word op);
           cpu = cpu8086_setflag cpu FLAG_CARRY False;
           cpu = cpu8086_setflag cpu FLAG_AUXILIARY False;
           cpu = cpu8086_setflag cpu FLAG_OVERFLOW False
       in alu_cycles cpu)))"


definition op_callfar :: "opcode \<Rightarrow> cpu8086 \<Rightarrow> fault + cpu8086" where
  "op_callfar op cpu =
     (let cpu = cpu8086_push cpu (reg16 cpu CS);
          cpu = cpu8086_push cpu (current_ip cpu) in
      bindE (loc_read cpu (source cpu)) (\<lambda>(ip', cpu).
        let cpu = cpu\<lparr>source := (source cpu)\<lparr>address := uintptr_add (address (source cpu)) 2\<rparr>\<rparr> in
      bindE (loc_read cpu (source cpu)) (\<lambda>(cs', cpu).
        let cpu = cpu8086_jump cpu cs' ip' in
        if type (source cpu) = DECODED_IMMEDIATE then Inr (charge cpu 28)
        else Inl Assertion_failed)))"

definition op_cbw :: "opcode \<Rightarrow> cpu8086 \<Rightarrow> fault + cpu8086" where
  "op_cbw op cpu = Inr (charge (set_ah cpu (0xFF * (drop_bit 7 (al cpu) AND 1))) 2)"

text \<open>
  \<open>op_cmp\<close>. The \<open>SCAS\<close> case of its switch has no \<open>break\<close> and runs on into
  \<open>default: assert(false)\<close>.
\<close>

definition cmp_cycles :: "cpu8086 \<Rightarrow> fault + cpu8086" where
  "cmp_cycles cpu =
     (let k = operand_types cpu in
      if k = (DECODED_REGISTER, DECODED_REGISTER) then Inr (charge cpu 3)
      else if k = (DECODED_REGISTER, DECODED_MEMORY) then Inr (charge cpu 9)
      else if k = (DECODED_MEMORY, DECODED_REGISTER) then Inr (charge cpu 9)
      else if k = (DECODED_ACCUMULATOR, DECODED_IMMEDIATE)
              \<or> k = (DECODED_REGISTER, DECODED_IMMEDIATE) then Inr (charge cpu 4)
      else if k = (DECODED_MEMORY, DECODED_IMMEDIATE) then Inr (charge cpu 10)
      else if k = (DECODED_STRING, DECODED_STRING) then Inr (charge cpu 22)
      else if k = (DECODED_ACCUMULATOR, DECODED_STRING) then Inl Assertion_failed
      else Inl Assertion_failed)"


definition op_cmp :: "opcode \<Rightarrow> cpu8086 \<Rightarrow> fault + cpu8086" where
  "op_cmp op cpu =
     bindE (loc_read cpu (destination cpu)) (\<lambda>(dest, cpu).
     bindE (loc_read cpu (source cpu)) (\<lambda>(s, cpu).
       let src = (NOT s + 1 :: u16);
           result = (ucast dest + ucast src :: u32) in
       let cpu = cpu8086_setpzs_flags cpu (ucast result) (is_word op);
           cpu = cpu8086_setflag cpu FLAG_CARRY (result > mask_buffer (is_word op));
           cpu = cpu8086_setflag cpu FLAG_AUXILIARY (unat (dest AND 0xF) < unat ((NOT (ucast src :: u32) + 1) AND 0xF));
           cpu = cpu8086_setflag cpu FLAG_OVERFLOW
                   ((result XOR ucast dest) AND (result XOR ucast src)
                    AND push_bit (sign_bit (is_word op)) 1 \<noteq> 0)
       in cmp_cycles cpu))"


definition op_cwd :: "opcode \<Rightarrow> cpu8086 \<Rightarrow> fault + cpu8086" where
  "op_cwd op cpu =
     Inr (charge (set_reg16 cpu DX (0xFFFF * (drop_bit 15 (reg16 cpu AX) AND 1))) 5)"

definition op_daa :: "opcode \<Rightarrow> cpu8086 \<Rightarrow> fault + cpu8086" where
  "op_daa op cpu =
     (let old_al = al cpu;
          old_af = cpu8086_getflag cpu FLAG_AUXILIARY;
          low = (unat (al cpu AND 0xF) > 9 \<or> old_af);
          added = (if low then 6 else 0 :: u8);
          cpu = cpu8086_setflag cpu FLAG_AUXILIARY low;
          high = (unat old_al > 0x99 + (if old_af then 6 else 0)
                  \<or> cpu8086_getflag cpu FLAG_CARRY);
          added = (if high then added + 0x60 else added);
          cpu = cpu8086_setflag cpu FLAG_CARRY high;
          cpu = set_al cpu (al cpu + added);
          cpu = cpu8086_setpzs_flags cpu (ucast (al cpu)) False;
          cpu = cpu8086_setflag cpu FLAG_OVERFLOW
                  ((al cpu XOR old_al) AND (al cpu XOR added) AND 0x80 \<noteq> 0)
      in Inr (charge cpu 4))"

definition op_das :: "opcode \<Rightarrow> cpu8086 \<Rightarrow> fault + cpu8086" where
  "op_das op cpu =
     (let old_al = al cpu;
          old_af = cpu8086_getflag cpu FLAG_AUXILIARY;
          low = (unat (al cpu AND 0xF) > 9 \<or> old_af);
          added = (if low then 6 else 0 :: u8);
          cpu = cpu8086_setflag cpu FLAG_AUXILIARY low;
          high = (unat (al cpu) > 0x99 + (if old_af then 6 else 0)
                  \<or> cpu8086_getflag cpu FLAG_CARRY);
          added = (if high then added + 0x60 else added);
          cpu = cpu8086_setflag cpu FLAG_CARRY high;
          added = NOT added + 1;
          cpu = set_al cpu (al cpu + added);
          cpu = cpu8086_setpzs_flags cpu (ucast (al cpu)) False;
          cpu = cpu8086_setflag cpu FLAG_OVERFLOW
                  ((al cpu XOR old_al) AND (al cpu XOR added) AND 0x80 \<noteq> 0)
      in Inr (charge cpu 4))"

definition incdec_cycles :: "opcode \<Rightarrow> cpu8086 \<Rightarrow> fault + cpu8086" where
  "incdec_cycles op cpu =
     (let t = type (destination cpu) in
      if t = DECODED_ACCUMULATOR \<or> t = DECODED_REGISTER
      then Inr (charge cpu (if is_word op then 2 else 3))
      else if t = DECODED_MEMORY then Inr (charge cpu 15)
      else Inl Assertion_failed)"

definition op_dec :: "opcode \<Rightarrow> cpu8086 \<Rightarrow> fault + cpu8086" where
  "op_dec op cpu =
     bindE (loc_read cpu (destination cpu)) (\<lambda>(dest, cpu).
       let result = (ucast dest - 1 :: u32) in
     bindE (loc_write cpu (destination cpu) (ucast result)) (\<lambda>cpu.
       let cpu = cpu8086_setpzs_flags cpu (ucast result) (is_word op);
           cpu = cpu8086_setflag cpu FLAG_AUXILIARY (unat (dest AND 0xF) < 1);
           cpu = cpu8086_setflag cpu FLAG_OVERFLOW
                   ((result XOR ucast dest) AND (result XOR 0xFFFF)
                    AND push_bit (sign_bit (is_word op)) 1 \<noteq> 0)
       in incdec_cycles op cpu))"

definition op_inc :: "opcode \<Rightarrow> cpu8086 \<Rightarrow> fault + cpu8086" where
  "op_inc op cpu =
     bindE (loc_read cpu (destination cpu)) (\<lambda>(dest, cpu).
       let result = (ucast dest + 1 :: u32) in
     bindE (loc_write cpu (destination cpu) (ucast result)) (\<lambda>cpu.
       let cpu = cpu8086_setpzs_flags cpu (ucast result) (is_word op);
           cpu = cpu8086_setflag cpu FLAG_AUXILIARY (unat (dest AND 0xF) + 1 > 0xF);
           cpu = cpu8086_setflag cpu FLAG_OVERFLOW
                   ((result XOR ucast dest) AND (result XOR 1)
                    AND push_bit (sign_bit (is_word op)) 1 \<noteq> 0)
       in incdec_cycles op cpu))"

text \<open>
  The sixteen conditional jumps differ in their condition only: read the signed 8-bit
  offset, jump to \<open>current_ip + offset\<close> and charge 12 when the condition holds, charge 4.
\<close>

definition jump_if :: "(cpu8086 \<Rightarrow> bool) \<Rightarrow> cpu8086 \<Rightarrow> fault + cpu8086" where
  "jump_if cond cpu =
     bindE (loc_read cpu (source cpu)) (\<lambda>(v, cpu).
       let offset = (ucast v :: u8);
           cpu = (if cond cpu
                  then charge (cpu8086_jump cpu (reg16 cpu CS) (current_ip cpu + scast offset)) 12
                  else cpu)
       in Inr (charge cpu 4))"


definition op_ja :: "opcode \<Rightarrow> cpu8086 \<Rightarrow> fault + cpu8086" where
  "op_ja op cpu = jump_if (\<lambda>cpu. \<not> cpu8086_getflag cpu FLAG_CARRY \<and> \<not> cpu8086_getflag cpu FLAG_ZERO) cpu"


definition op_jae :: "opcode \<Rightarrow> cpu8086 \<Rightarrow> fault + cpu8086" where
  "op_jae op cpu = jump_if (\<lambda>cpu. \<not> cpu8086_getflag cpu FLAG_CARRY) cpu"


definition op_jb :: "opcode \<Rightarrow> cpu8086 \<Rightarrow> fault + cpu8086" where
  "op_jb op cpu = jump_if (\<lambda>cpu. cpu8086_getflag cpu FLAG_CARRY) cpu"


definition op_jbe :: "opcode \<Rightarrow> cpu8086 \<Rightarrow> fault + cpu8086" where
  "op_jbe op cpu = jump_if (\<lambda>cpu. cpu8086_getflag cpu FLAG_CARRY \<or> cpu8086_getflag cpu FLAG_ZERO) cpu"


definition op_je :: "opcode \<Rightarrow> cpu8086 \<Rightarrow> fault + cpu8086" where
  "op_je op cpu = jump_if (\<lambda>cpu. cpu8086_getflag cpu FLAG_ZERO) cpu"


definition op_jg :: "opcode \<Rightarrow> cpu8086 \<Rightarrow> fault + cpu8086" where
  "op_jg op cpu = jump_if (\<lambda>cpu. (cpu8086_getflag cpu FLAG_SIGN) = (cpu8086_getflag cpu FLAG_OVERFLOW) \<and> \<not> cpu8086_getflag cpu FLAG_ZERO) cpu"


definition op_jge :: "opcode \<Rightarrow> cpu8086 \<Rightarrow> fault + cpu8086" where
  "op_jge op cpu = jump_if (\<lambda>cpu. (cpu8086_getflag cpu FLAG_SIGN) = (cpu8086_getflag cpu FLAG_OVERFLOW)) cpu"


definition op_jl :: "opcode \<Rightarrow> cpu8086 \<Rightarrow> fault + cpu8086" where
  "op_jl op cpu = jump_if (\<lambda>cpu. (cpu8086_getflag cpu FLAG_SIGN) \<noteq> (cpu8086_getflag cpu FLAG_OVERFLOW)) cpu"


definition op_jle :: "opcode \<Rightarrow> cpu8086 \<Rightarrow> fault + cpu8086" where
  "op_jle op cpu = jump_if (\<lambda>cpu. (cpu8086_getflag cpu FLAG_SIGN) \<noteq> (cpu8086_getflag cpu FLAG_OVERFLOW) \<or> cpu8086_getflag cpu FLAG_ZERO) cpu"


definition op_jne :: "opcode \<Rightarrow> cpu8086 \<Rightarrow> fault + cpu8086" where
  "op_jne op cpu = jump_if (\<lambda>cpu. \<not> cpu8086_getflag cpu FLAG_ZERO) cpu"


definition op_jno :: "opcode \<Rightarrow> cpu8086 \<Rightarrow> fault + cpu8086" where
  "op_jno op cpu = jump_if (\<lambda>cpu. \<not> cpu8086_getflag cpu FLAG_OVERFLOW) cpu"


definition op_jnp :: "opcode \<Rightarrow> cpu8086 \<Rightarrow> fault + cpu8086" where
  "op_jnp op cpu = jump_if (\<lambda>cpu. \<not> cpu8086_getflag cpu FLAG_PARITY) cpu"


definition op_jns :: "opcode \<Rightarrow> cpu8086 \<Rightarrow> fault + cpu8086" where
  "op_jns op cpu = jump_if (\<lambda>cpu. \<not> cpu8086_getflag cpu FLAG_SIGN) cpu"


definition op_jo :: "opcode \<Rightarrow> cpu8086 \<Rightarrow> fault + cpu8086" where
  "op_jo op cpu = jump_if (\<lambda>cpu. cpu8086_getflag cpu FLAG_OVERFLOW) cpu"


definition op_jp :: "opcode \<Rightarrow> cpu8086 \<Rightarrow> fault + cpu8086" where
  "op_jp op cpu = jump_if (\<lambda>cpu. cpu8086_getflag cpu FLAG_PARITY) cpu"


definition op_js :: "opcode \<Rightarrow> cpu8086 \<Rightarrow> fault + cpu8086" where
  "op_js op cpu = jump_if (\<lambda>cpu. cpu8086_getflag cpu FLAG_SIGN) cpu"


definition op_lahf :: "opcode \<Rightarrow> cpu8086 \<Rightarrow> fault + cpu8086" where
  "op_lahf op cpu = Inr (charge (set_ah cpu (ucast (flags cpu))) 4)"

definition op_lea :: "opcode \<Rightarrow> cpu8086 \<Rightarrow> fault + cpu8086" where
  "op_lea op cpu =
     (if \<not> virtual (source cpu) then Inl Assertion_failed
      else
        bindE (uintptr_number (address (source cpu))) (\<lambda>a.
        bindE (loc_write cpu (destination cpu) (of_nat a)) (\<lambda>cpu.
          Inr (charge cpu 2))))"


definition op_lds :: "opcode \<Rightarrow> cpu8086 \<Rightarrow> fault + cpu8086" where
  "op_lds op cpu =
     (if \<not> virtual (source cpu) then Inl Assertion_failed
      else
        bindE (loc_read cpu (source cpu)) (\<lambda>(offset, cpu).
          let cpu = cpu\<lparr>source := (source cpu)\<lparr>address := uintptr_add (address (source cpu)) 2\<rparr>\<rparr> in
        bindE (loc_read cpu (source cpu)) (\<lambda>(segment, cpu).
        bindE (loc_write cpu (destination cpu) offset) (\<lambda>cpu.
          let cpu = set_reg16 cpu ES segment
          in Inr (charge cpu 16)))))"


definition op_les :: "opcode \<Rightarrow> cpu8086 \<Rightarrow> fault + cpu8086" where
  "op_les op cpu =
     (if \<not> virtual (source cpu) then Inl Assertion_failed
      else
        bindE (loc_read cpu (source cpu)) (\<lambda>(offset, cpu).
          let cpu = cpu\<lparr>source := (source cpu)\<lparr>address := uintptr_add (address (source cpu)) 2\<rparr>\<rparr> in
        bindE (loc_read cpu (source cpu)) (\<lambda>(segment, cpu).
        bindE (loc_write cpu (destination cpu) offset) (\<lambda>cpu.
          let cpu = set_reg16 cpu ES segment
          in Inr (charge cpu 16)))))"


definition mov_cycles :: "cpu8086 \<Rightarrow> fault + cpu8086" where
  "mov_cycles cpu =
     (let k = operand_types cpu in
      if k = (DECODED_MEMORY, DECODED_ACCUMULATOR) \<or> k = (DECODED_ACCUMULATOR, DECODED_MEMORY)
      then Inr (charge cpu 10)
      else if k = (DECODED_REGISTER, DECODED_REGISTER) \<or> k = (DECODED_SEGREG, DECODED_REGISTER)
              \<or> k = (DECODED_REGISTER, DECODED_SEGREG)
      then Inr (charge cpu 2)
      else if k = (DECODED_REGISTER, DECODED_MEMORY) \<or> k = (DECODED_SEGREG, DECODED_MEMORY)
      then Inr (charge cpu 8)
      else if k = (DECODED_MEMORY, DECODED_REGISTER) \<or> k = (DECODED_MEMORY, DECODED_SEGREG)
      then Inr (charge cpu 9)
      else if k = (DECODED_REGISTER, DECODED_IMMEDIATE)
              \<or> k = (DECODED_ACCUMULATOR, DECODED_IMMEDIATE)
      then Inr (charge cpu 4)
      else if k = (DECODED_MEMORY, DECODED_IMMEDIATE) then Inr (charge cpu 10)
      else if k = (DECODED_STRING, DECODED_STRING)
      then Inr (charge cpu (if repeat cpu then 17 else 18))
      else if k = (DECODED_STRING, DECODED_ACCUMULATOR)
      then Inr (charge cpu (if repeat cpu then 10 else 11))
      else if k = (DECODED_ACCUMULATOR, DECODED_STRING)
      then Inr (charge cpu (if repeat cpu then 13 else 12))
      else Inl Assertion_failed)"

definition op_mov :: "opcode \<Rightarrow> cpu8086 \<Rightarrow> fault + cpu8086" where
  "op_mov op cpu =
     bindE (loc_read cpu (source cpu)) (\<lambda>(src, cpu).
     bindE (loc_write cpu (destination cpu) src) (\<lambda>cpu.
       mov_cycles cpu))"


definition op_or :: "opcode \<Rightarrow> cpu8086 \<Rightarrow> fault + cpu8086" where
  "op_or op cpu =
     bindE (loc_read cpu (destination cpu)) (\<lambda>(dest, cpu).
     bindE (loc_read cpu (source cpu)) (\<lambda>(src, cpu).
       let result = (dest OR src :: u16) in
     bindE (loc_write cpu (destination cpu) result) (\<lambda>cpu.
       let cpu = cpu8086_setpzs_flags cpu result (is_word op);
           cpu = cpu8086_setflag cpu FLAG_CARRY False;
           cpu = cpu8086_setflag cpu FLAG_AUXILIARY False;
           cpu = cpu8086_setflag cpu FLAG_OVERFLOW False
       in alu_cycles cpu)))"


definition op_pop :: "opcode \<Rightarrow> cpu8086 \<Rightarrow> fault + cpu8086" where
  "op_pop op cpu =
     (case cpu8086_pop cpu of (result, cpu) \<Rightarrow>
        bindE (loc_write cpu (destination cpu) result) (\<lambda>cpu.
          let t = type (destination cpu) in
          if t = DECODED_ACCUMULATOR \<or> t = DECODED_REGISTER \<or> t = DECODED_SEGREG
          then Inr (charge cpu 8)
          else if t = DECODED_MEMORY then Inr (charge cpu 17)
          else Inl Assertion_failed))"

definition op_popf :: "opcode \<Rightarrow> cpu8086 \<Rightarrow> fault + cpu8086" where
  "op_popf op cpu =
     (case cpu8086_pop cpu of (w, cpu) \<Rightarrow> Inr (charge (cpu\<lparr>flags := w\<rparr>) 8))"

definition op_push :: "opcode \<Rightarrow> cpu8086 \<Rightarrow> fault + cpu8086" where
  "op_push op cpu =
     bindE (loc_read cpu (destination cpu)) (\<lambda>(dest, cpu).
       let cpu = cpu8086_push cpu dest;
           t = type (destination cpu) in
       if t = DECODED_ACCUMULATOR \<or> t = DECODED_REGISTER then Inr (charge cpu 11)
       else if t = DECODED_SEGREG then Inr (charge cpu 10)
       else if t = DECODED_MEMORY then Inr (charge cpu 16)
       else Inl Assertion_failed)"

definition op_pushf :: "opcode \<Rightarrow> cpu8086 \<Rightarrow> fault + cpu8086" where
  "op_pushf op cpu = Inr (charge (cpu8086_push cpu (flags cpu)) 10)"

text \<open>The switch that ends \<open>op_retnear\<close> and \<open>op_retfar\<close>, with their two cycle counts.\<close>

definition ret_release :: "u8 \<Rightarrow> u8 \<Rightarrow> cpu8086 \<Rightarrow> fault + cpu8086" where
  "ret_release plain with_imm cpu =
     (if type (source cpu) = DECODED_NULL then Inr (charge cpu plain)
      else if type (source cpu) = DECODED_IMMEDIATE then
        (let cpu = charge cpu with_imm in
         bindE (loc_read cpu (source cpu)) (\<lambda>(n, cpu).
           Inr (set_reg16 cpu SP (reg16 cpu SP + n))))
      else Inl Assertion_failed)"

definition op_retnear :: "opcode \<Rightarrow> cpu8086 \<Rightarrow> fault + cpu8086" where
  "op_retnear op cpu =
     (case cpu8086_pop cpu of (ip', cpu) \<Rightarrow>
        ret_release 8 12 (cpu8086_jump cpu (reg16 cpu CS) ip'))"

definition op_retfar :: "opcode \<Rightarrow> cpu8086 \<Rightarrow> fault + cpu8086" where
  "op_retfar op cpu =
     (case cpu8086_pop cpu of (ip', cpu) \<Rightarrow>
      case cpu8086_pop cpu of (cs', cpu) \<Rightarrow>
        ret_release 18 17 (cpu8086_jump cpu cs' ip'))"

definition op_sahf :: "opcode \<Rightarrow> cpu8086 \<Rightarrow> fault + cpu8086" where
  "op_sahf op cpu =
     (let cpu = cpu8086_setflag cpu FLAG_CARRY (ucast (ah cpu) AND FLAG_CARRY \<noteq> 0);
          cpu = cpu8086_setflag cpu FLAG_PARITY (ucast (ah cpu) AND FLAG_PARITY \<noteq> 0);
          cpu = cpu8086_setflag cpu FLAG_AUXILIARY (ucast (ah cpu) AND FLAG_AUXILIARY \<noteq> 0);
          cpu = cpu8086_setflag cpu FLAG_ZERO (ucast (ah cpu) AND FLAG_ZERO \<noteq> 0);
          cpu = cpu8086_setflag cpu FLAG_SIGN (ucast (ah cpu) AND FLAG_SIGN \<noteq> 0)
      in Inr (charge cpu 4))"


definition op_sbb :: "opcode \<Rightarrow> cpu8086 \<Rightarrow> fault + cpu8086" where
  "op_sbb op cpu =
     bindE (loc_read cpu (destination cpu)) (\<lambda>(dest, cpu).
     bindE (loc_read cpu (source cpu)) (\<lambda>(s, cpu).
       let src = (NOT (s + (if cpu8086_getflag cpu FLAG_CARRY then 1 else 0)) + 1 :: u16);
           result = (ucast dest + ucast src :: u32) in
     bindE (loc_write cpu (destination cpu) (ucast result)) (\<lambda>cpu.
       let cpu = cpu8086_setpzs_flags cpu (ucast result) (is_word op);
           cpu = cpu8086_setflag cpu FLAG_CARRY (result > mask_buffer (is_word op));
           cpu = cpu8086_setflag cpu FLAG_AUXILIARY (unat (dest AND 0xF) < unat ((NOT (ucast src :: u32) + 1) AND 0xF));
           cpu = cpu8086_setflag cpu FLAG_OVERFLOW
                   ((result XOR ucast dest) AND (result XOR ucast src)
                    AND push_bit (sign_bit (is_word op)) 1 \<noteq> 0)
       in alu_cycles cpu)))"


definition op_sub :: "opcode \<Rightarrow> cpu8086 \<Rightarrow> fault + cpu8086" where
  "op_sub op cpu =
     bindE (loc_read cpu (destination cpu)) (\<lambda>(dest, cpu).
     bindE (loc_read cpu (source cpu)) (\<lambda>(s, cpu).
       let src = (NOT s + 1 :: u16);
           result = (ucast dest + ucast src :: u32) in
     bindE (loc_write cpu (destination cpu) (ucast result)) (\<lambda>cpu.
       let cpu = cpu8086_setpzs_flags cpu (ucast result) (is_word op);
           cpu = cpu8086_setflag cpu FLAG_CARRY (result > mask_buffer (is_word op));
           cpu = cpu8086_setflag cpu FLAG_AUXILIARY (unat (dest AND 0xF) < unat ((NOT (ucast src :: u32) + 1) AND 0xF));
           cpu = cpu8086_setflag cpu FLAG_OVERFLOW
                   ((result XOR ucast dest) AND (result XOR ucast src)
                    AND push_bit (sign_bit (is_word op)) 1 \<noteq> 0)
       in alu_cycles cpu)))"


definition test_cycles :: "cpu8086 \<Rightarrow> fault + cpu8086" where
  "test_cycles cpu =
     (let k = operand_types cpu in
      if k = (DECODED_REGISTER, DECODED_REGISTER) then Inr (charge cpu 3)
      else if k = (DECODED_REGISTER, DECODED_MEMORY) then Inr (charge cpu 9)
      else if k = (DECODED_ACCUMULATOR, DECODED_IMMEDIATE) then Inr (charge cpu 4)
      else if k = (DECODED_REGISTER, DECODED_IMMEDIATE) then Inr (charge cpu 5)
      else if k = (DECODED_MEMORY, DECODED_IMMEDIATE) then Inr (charge cpu 11)
      else Inl Assertion_failed)"


definition op_test :: "opcode \<Rightarrow> cpu8086 \<Rightarrow> fault + cpu8086" where
  "op_test op cpu =
     bindE (loc_read cpu (destination cpu)) (\<lambda>(dest, cpu).
     bindE (loc_read cpu (source cpu)) (\<lambda>(src, cpu).
       let result = (dest AND src :: u16) in
       let cpu = cpu8086_setpzs_flags cpu result (is_word op);
           cpu = cpu8086_setflag cpu FLAG_CARRY False;
           cpu = cpu8086_setflag cpu FLAG_AUXILIARY False;
           cpu = cpu8086_setflag cpu FLAG_OVERFLOW False
       in test_cycles cpu))"


definition op_wait :: "opcode \<Rightarrow> cpu8086 \<Rightarrow> fault + cpu8086" where
  "op_wait op cpu = Inr (charge cpu 3)"

definition op_xchg :: "opcode \<Rightarrow> cpu8086 \<Rightarrow> fault + cpu8086" where
  "op_xchg op cpu =
     bindE (loc_read cpu (destination cpu)) (\<lambda>(dest, cpu).
     bindE (loc_read cpu (source cpu)) (\<lambda>(src, cpu).
     bindE (loc_write cpu (destination cpu) src) (\<lambda>cpu.
     bindE (loc_write cpu (source cpu) dest) (\<lambda>cpu.
       let k = operand_types cpu in
       if k = (DECODED_ACCUMULATOR, DECODED_REGISTER) then Inr (charge cpu 3)
       else if k = (DECODED_REGISTER, DECODED_REGISTER) then Inr (charge cpu 4)
       else if k = (DECODED_MEMORY, DECODED_REGISTER) then Inr (charge cpu 17)
       else Inl Assertion_failed))))"


definition op_xor :: "opcode \<Rightarrow> cpu8086 \<Rightarrow> fault + cpu8086" where
  "op_xor op cpu =
     bindE (loc_read cpu (destination cpu)) (\<lambda>(dest, cpu).
     bindE (loc_read cpu (source cpu)) (\<lambda>(src, cpu).
       let result = (dest XOR src :: u16) in
     bindE (loc_write cpu (destination cpu) result) (\<lambda>cpu.
       let cpu = cpu8086_setpzs_flags cpu result (is_word op);
           cpu = cpu8086_setflag cpu FLAG_CARRY False;
           cpu = cpu8086_setflag cpu FLAG_AUXILIARY False;
           cpu = cpu8086_setflag cpu FLAG_OVERFLOW False
       in alu_cycles cpu)))"


text \<open>
  Calling through a handler pointer. \<open>op_imm\<close> calls the handler that \<open>imm_table\<close> holds for
  the \<open>reg\<close> field of the ModRM byte, with its own table entry as \<open>op\<close>. No entry of
  \<open>imm_table\<close> points back to \<open>op_imm\<close>; the program would recurse without end if one did,
  and \<open>call_basic\<close> gives that case as undefined.
\<close>

definition call_basic :: "handler \<Rightarrow> opcode \<Rightarrow> cpu8086 \<Rightarrow> fault + cpu8086" where
  "call_basic f op cpu =
     (case f of
        Op_imm \<Rightarrow> Inl Undefined_behaviour
      | Op_aaa \<Rightarrow> op_aaa op cpu
      | Op_aas \<Rightarrow> op_aas op cpu
      | Op_adc \<Rightarrow> op_adc op cpu
      | Op_add \<Rightarrow> op_add op cpu
      | Op_and \<Rightarrow> op_and op cpu
      | Op_callfar \<Rightarrow> op_callfar op cpu
      | Op_cbw \<Rightarrow> op_cbw op cpu
      | Op_cmp \<Rightarrow> op_cmp op cpu
      | Op_cwd \<Rightarrow> op_cwd op cpu
      | Op_daa \<Rightarrow> op_daa op cpu
      | Op_das \<Rightarrow> op_das op cpu
      | Op_dec \<Rightarrow> op_dec op cpu
      | Op_inc \<Rightarrow> op_inc op cpu
      | Op_ja \<Rightarrow> op_ja op cpu
      | Op_jae \<Rightarrow> op_jae op cpu
      | Op_jb \<Rightarrow> op_jb op cpu
      | Op_jbe \<Rightarrow> op_jbe op cpu
      | Op_je \<Rightarrow> op_je op cpu
      | Op_jg \<Rightarrow> op_jg op cpu
      | Op_jge \<Rightarrow> op_jge op cpu
      | Op_jl \<Rightarrow> op_jl op cpu
      | Op_jle \<Rightarrow> op_jle op cpu
      | Op_jne \<Rightarrow> op_jne op cpu
      | Op_jno \<Rightarrow> op_jno op cpu
      | Op_jnp \<Rightarrow> op_jnp op cpu
      | Op_jns \<Rightarrow> op_jns op cpu
      | Op_jo \<Rightarrow> op_jo op cpu
      | Op_jp \<Rightarrow> op_jp op cpu
      | Op_js \<Rightarrow> op_js op cpu
      | Op_lahf \<Rightarrow> op_lahf op cpu
      | Op_lea \<Rightarrow> op_lea op cpu
      | Op_lds \<Rightarrow> op_lds op cpu
      | Op_les \<Rightarrow> op_les op cpu
      | Op_mov \<Rightarrow> op_mov op cpu
      | Op_or \<Rightarrow> op_or op cpu
      | Op_pop \<Rightarrow> op_pop op cpu
      | Op_popf \<Rightarrow> op_popf op cpu
      | Op_push \<Rightarrow> op_push op cpu
      | Op_pushf \<Rightarrow> op_pushf op cpu
      | Op_retnear \<Rightarrow> op_retnear op cpu
      | Op_retfar \<Rightarrow> op_retfar op cpu
      | Op_sahf \<Rightarrow> op_sahf op cpu
      | Op_sbb \<Rightarrow> op_sbb op cpu
      | Op_sub \<Rightarrow> op_sub op cpu
      | Op_test \<Rightarrow> op_test op cpu
      | Op_wait \<Rightarrow> op_wait op cpu
      | Op_xchg \<Rightarrow> op_xchg op cpu
      | Op_xor \<Rightarrow> op_xor op cpu)"

definition op_imm :: "opcode \<Rightarrow> cpu8086 \<Rightarrow> fault + cpu8086" where
  "op_imm op cpu =
     bindE (imm_table_at (modrm_reg cpu)) (\<lambda>e.
       case func e of
         None \<Rightarrow> Inl Undefined_behaviour
       | Some f \<Rightarrow> call_basic f op cpu)"

definition call :: "handler \<Rightarrow> opcode \<Rightarrow> cpu8086 \<Rightarrow> fault + cpu8086" where
  "call f op cpu = (if f = Op_imm then op_imm op cpu else call_basic f op cpu)"

section \<open>Reset\<close>

definition OPCODE_NONE :: u16 where "OPCODE_NONE = 0xFFFF"
definition MODRM_NONE :: u16 where "MODRM_NONE = 0xFFFF"
definition DISP8_NONE :: u16 where "DISP8_NONE = 0xFFFF"
definition DISP16_NONE :: u16 where "DISP16_NONE = 0xFFFF"
definition IMM8_NONE :: u16 where "IMM8_NONE = 0xFFFF"
definition IMM16_NONE :: u16 where "IMM16_NONE = 0xFFFF"

text \<open>
  Modelled from the spec: the header that declares \<open>LO_SEGMENT_NONE\<close> and
  \<open>HI_SEGMENT_NONE\<close> is not among the sources. The spec gives every decode scratch field
  "a sentinel distinct from any byte value"; the two are taken to be \<open>0xFFFF\<close> as the six
  sentinels above are.
\<close>

definition LO_SEGMENT_NONE :: u16 where "LO_SEGMENT_NONE = 0xFFFF"
definition HI_SEGMENT_NONE :: u16 where "HI_SEGMENT_NONE = 0xFFFF"

definition cpu8086_reset_execution_regs :: "cpu8086 \<Rightarrow> cpu8086" where
  "cpu8086_reset_execution_regs cpu =
     cpu\<lparr>repeat := False,
         prefix_g1 := PREFIX_G1_NONE,
         prefix_g2 := PREFIX_G1_NONE,
         opcode_byte := OPCODE_NONE,
         disp8_byte := DISP8_NONE,
         disp16_byte := DISP16_NONE,
         imm8_byte := IMM8_NONE,
         imm16_byte := IMM16_NONE,
         lo_segment := LO_SEGMENT_NONE,
         hi_segment := HI_SEGMENT_NONE,
         stage := CPU8086_READY,
         modrm_byte := MODRM_NONE\<rparr>"

definition cpu8086_reset :: "cpu8086 \<Rightarrow> cpu8086" where
  "cpu8086_reset cpu =
     (let cpu = cpu\<lparr>flags := 0x0000, ip := 0x0000\<rparr>;
          cpu = set_reg16 cpu CS 0xFFFF;
          cpu = set_reg16 cpu DS 0x0000;
          cpu = set_reg16 cpu SS 0x0000;
          cpu = set_reg16 cpu ES 0x0000;
          cpu = cpu\<lparr>mt := True, q_r := 0\<rparr>;
          cpu = cpu\<lparr>q_r := 0\<rparr>;
          cpu = cpu\<lparr>biu_prefetch_cycles := 3, cycles := 0, current_ip := 0x0000\<rparr>
      in cpu8086_reset_execution_regs cpu)"

text \<open>
  \<open>cpu8086_new\<close>: \<open>quick_malloc\<close> is \<open>calloc\<close>, so the structure starts with every byte
  zero; then the bus is attached and the CPU reset.
\<close>

definition zeroed_location :: location where
  "zeroed_location = \<lparr>type = DECODED_ACCUMULATOR, address = Num 0, virtual = False\<rparr>"

definition zeroed_cpu :: "bus \<Rightarrow> cpu8086" where
  "zeroed_cpu b =
     \<lparr>bus = b, regs = (\<lambda>k. 0), ip = 0, flags = 0, q = (\<lambda>k. 0), q_r = 0, q_w = 0,
      hl = False, mt = False, current_ip = 0, cycles = 0, biu_prefetch_cycles = 0,
      prefix_g1 = 0, prefix_g2 = 0, opcode_byte = 0, disp8_byte = 0, disp16_byte = 0,
      imm8_byte = 0, imm16_byte = 0, lo_segment = 0, hi_segment = 0, immediate = 0,
      rm = Num 0, reg = Num 0, stage = CPU8086_READY, modrm_byte = 0,
      destination = zeroed_location, source = zeroed_location,
      modrm_is_segreg = False, repeat = False, test = False\<rparr>"

definition cpu8086_new :: "bus \<Rightarrow> cpu8086" where
  "cpu8086_new b = cpu8086_reset (zeroed_cpu b)"

section \<open>The clock\<close>

text \<open>
  The first block of \<open>cpu8086_clock\<close>: the bus interface unit. The countdown is a
  \<open>uint8_t\<close>; \<open>(cpu->biu_prefetch_cycles - 1) % 4\<close> is computed in \<open>int\<close> and stored back.
\<close>

definition biu_fetch :: "cpu8086 \<Rightarrow> fault + cpu8086" where
  "biu_fetch cpu =
     (if 3 \<le> q_w cpu then Inl Undefined_behaviour
      else
        let w = bus_read_short (bus cpu) (push_bit 4 (unat (reg16 cpu CS)) + unat (ip cpu));
            cpu = cpu\<lparr>q := (q cpu)(q_w cpu := w)\<rparr>;
            cpu = cpu\<lparr>q_w := (q_w cpu + 1) mod 3\<rparr>;
            cpu = cpu\<lparr>mt := False\<rparr>
        in if ip cpu AND 1 \<noteq> 0 then Inr (cpu\<lparr>hl := True, ip := ip cpu + 1\<rparr>)
           else Inr (cpu\<lparr>ip := ip cpu + 2\<rparr>))"

definition biu_countdown :: "u8 \<Rightarrow> u8" where
  "biu_countdown c = word_of_int (c_rem (uint c - 1) 4)"

definition biu_step :: "cpu8086 \<Rightarrow> fault + cpu8086" where
  "biu_step cpu =
     (if mt cpu \<or> q_w cpu \<noteq> q_r cpu
      then bindE (if biu_prefetch_cycles cpu = 0 then biu_fetch cpu else Inr cpu) (\<lambda>cpu.
             Inr (cpu\<lparr>biu_prefetch_cycles := biu_countdown (biu_prefetch_cycles cpu)\<rparr>))
      else Inr cpu)"

text \<open>
  The result of a tick: \<open>None\<close> when the call does not return (the repeat loop can run
  for ever from a state in which the handler restores CX), otherwise a fault or the new
  state.
\<close>

type_synonym outcome = "(fault + cpu8086) option"

definition bindF :: "fault + 'a \<Rightarrow> ('a \<Rightarrow> outcome) \<Rightarrow> outcome" where
  "bindF m f = (case m of Inl e \<Rightarrow> Some (Inl e) | Inr x \<Rightarrow> f x)"

text \<open>
  \<open>if (needed) { if (cpu->mt) return; field = cpu8086_prefetch_dequeue(cpu); }\<close> followed by
  the rest of the stage, \<open>k\<close>.
\<close>

definition dequeue_into ::
  "bool \<Rightarrow> (u16 \<Rightarrow> cpu8086 \<Rightarrow> cpu8086) \<Rightarrow> cpu8086 \<Rightarrow> (cpu8086 \<Rightarrow> outcome) \<Rightarrow> outcome"
where
  "dequeue_into needed store cpu k =
     (if needed
      then (if mt cpu then Some (Inr cpu)
            else bindF (cpu8086_prefetch_dequeue cpu) (\<lambda>(b, cpu). k (store (ucast b) cpu)))
      else k cpu)"

text \<open>\<open>delta_table[op->is_word][cpu8086_getflag(cpu, FLAG_DIRECTION)]\<close>, added to SI and DI.\<close>

definition delta_table :: "bool \<Rightarrow> bool \<Rightarrow> u16" where
  "delta_table w d = (if w then (if d then - 2 else 2) else (if d then - 1 else 1))"

definition string_advance :: "opcode \<Rightarrow> cpu8086 \<Rightarrow> cpu8086" where
  "string_advance op cpu =
     (let delta = delta_table (is_word op) (cpu8086_getflag cpu FLAG_DIRECTION);
          cpu = set_reg16 cpu SI (reg16 cpu SI + delta)
      in set_reg16 cpu DI (reg16 cpu DI + delta))"

text \<open>
  From the label \<open>exec_op\<close> to the end of the \<open>CPU8086_EXECUTING\<close> case. With \<open>repeat\<close> set
  the loop leaves by \<open>return\<close> when CX is zero, before the final \<open>cpu->cycles -= 1\<close>.
\<close>

partial_function (option) exec_op :: "handler \<Rightarrow> opcode \<Rightarrow> cpu8086 \<Rightarrow> (fault + cpu8086) option"
where
  "exec_op f op cpu =
     (if repeat cpu \<and> reg16 cpu CX = 0 then Some (Inr cpu)
      else
        case call f op (if repeat cpu then set_reg16 cpu CX (reg16 cpu CX - 1) else cpu) of
          Inl e \<Rightarrow> Some (Inl e)
        | Inr cpu' \<Rightarrow>
            if repeat cpu' then exec_op f op (string_advance op cpu')
            else Some (Inr (cpu'\<lparr>cycles := cycles cpu' - 1\<rparr>)))"

declare exec_op.simps [code]

definition stage_executing :: "fault + opcode \<Rightarrow> cpu8086 \<Rightarrow> outcome" where
  "stage_executing opp cpu =
     bindF opp (\<lambda>op.
       case func op of
         None \<Rightarrow> Some (Inl Assertion_failed)
       | Some f \<Rightarrow> exec_op f op (if repeat cpu then charge cpu 9 else cpu))"

definition stage_decode_loc :: "fault + opcode \<Rightarrow> cpu8086 \<Rightarrow> outcome" where
  "stage_decode_loc opp cpu =
     bindF opp (\<lambda>op.
     bindF (loc_set cpu (destination cpu) (op_destination op)) (\<lambda>d.
       let cpu = cpu\<lparr>destination := d\<rparr> in
     bindF (loc_set cpu (source cpu) (op_source op)) (\<lambda>s.
       let cpu = cpu\<lparr>source := s\<rparr>
       in stage_executing opp (cpu\<lparr>stage := CPU8086_EXECUTING\<rparr>))))"

text \<open>
  \<open>CPU8086_FETCH_ADDRESS\<close>. The immediate is a 32-bit field; the shifts are taken to wrap
  at 32 bits.
\<close>

definition stage_fetch_address :: "fault + opcode \<Rightarrow> cpu8086 \<Rightarrow> outcome" where
  "stage_fetch_address opp cpu =
     dequeue_into (imm8_byte cpu = IMM8_NONE) (\<lambda>b cpu. cpu\<lparr>imm8_byte := b\<rparr>) cpu (\<lambda>cpu.
     dequeue_into (imm16_byte cpu = IMM16_NONE) (\<lambda>b cpu. cpu\<lparr>imm16_byte := b\<rparr>) cpu (\<lambda>cpu.
     bindF opp (\<lambda>op.
     dequeue_into (op_source op = LOC_SEGOFF \<and> lo_segment cpu = LO_SEGMENT_NONE)
       (\<lambda>b cpu. cpu\<lparr>lo_segment := b\<rparr>) cpu (\<lambda>cpu.
     dequeue_into (op_source op = LOC_SEGOFF \<and> hi_segment cpu = HI_SEGMENT_NONE)
       (\<lambda>b cpu. cpu\<lparr>hi_segment := b\<rparr>) cpu (\<lambda>cpu.
       let cpu = cpu\<lparr>immediate :=
                   (if op_source op = LOC_SEGOFF
                    then push_bit 24 (ucast (imm16_byte cpu)) OR push_bit 16 (ucast (imm8_byte cpu))
                         OR push_bit 8 (ucast (hi_segment cpu)) OR ucast (lo_segment cpu)
                    else push_bit 8 (ucast (imm16_byte cpu)) OR ucast (imm8_byte cpu))\<rparr>
       in stage_decode_loc opp (cpu\<lparr>stage := CPU8086_DECODE_LOC\<rparr>))))))"

definition stage_fetch_imm :: "fault + opcode \<Rightarrow> cpu8086 \<Rightarrow> outcome" where
  "stage_fetch_imm opp cpu =
     dequeue_into (imm8_byte cpu = IMM8_NONE) (\<lambda>b cpu. cpu\<lparr>imm8_byte := b\<rparr>) cpu (\<lambda>cpu.
     bindF opp (\<lambda>op.
       let finish = (\<lambda>cpu.
             let cpu = cpu\<lparr>immediate :=
                         (if is_word op
                          then push_bit 8 (ucast (imm16_byte cpu)) OR ucast (imm8_byte cpu)
                          else ucast (imm8_byte cpu))\<rparr>
             in stage_decode_loc opp (cpu\<lparr>stage := CPU8086_DECODE_LOC\<rparr>))
       in if is_word op \<and> imm16_byte cpu = IMM16_NONE
          then (if op_source op = LOC_IMM8
                then finish (cpu\<lparr>imm16_byte := 0xFF * (drop_bit 7 (imm8_byte cpu) AND 1)\<rparr>)
                else dequeue_into True (\<lambda>b cpu. cpu\<lparr>imm16_byte := b\<rparr>) cpu finish)
          else finish cpu))"

text \<open>
  The effective address of a memory operand (the \<open>else\<close> branch of the \<open>mod\<close> test in
  \<open>CPU8086_FETCH_MODRM\<close>): the base from the \<open>rm\<close> field with its cycles and default
  segment, the segment override, the displacement, and the segment added.
\<close>

definition ea_base :: "cpu8086 \<Rightarrow> nat \<times> nat \<times> u8" where
  "ea_base cpu =
     (let r = modrm_rm cpu in
      if r = 0 then (unat (reg16 cpu BX + reg16 cpu SI), DS, 7)
      else if r = 1 then (unat (reg16 cpu BX + reg16 cpu DI), DS, 8)
      else if r = 2 then (unat (reg16 cpu BP + reg16 cpu SI), SS, 8)
      else if r = 3 then (unat (reg16 cpu BP + reg16 cpu DI), SS, 7)
      else if r = 4 then (unat (reg16 cpu SI), DS, 5)
      else if r = 5 then (unat (reg16 cpu DI), DS, 5)
      else if r = 6 then
        (if modrm_mod cpu \<noteq> 0 then (unat (reg16 cpu BP), SS, 5)
         else (unat (push_bit 8 (ucast (disp16_byte cpu)) OR (ucast (disp8_byte cpu) :: u32)),
               DS, 6))
      else (unat (reg16 cpu BX), DS, 5))"

definition effective_address :: "cpu8086 \<Rightarrow> fault + cpu8086" where
  "effective_address cpu =
     (case ea_base cpu of (base, default_segment, n) \<Rightarrow>
        let cpu = charge cpu n;
            prefix = (if prefix_g2 cpu \<noteq> PREFIX_G2_NONE then override_segment cpu
                      else default_segment);
            disp16 = (push_bit 8 (disp16_byte cpu) OR disp8_byte cpu :: u16);
            disp8 = (scast (ucast (disp8_byte cpu) :: u8) :: u16);
            (ea, cpu) =
               (if modrm_mod cpu = MOD_DISP16
                then (unat (of_nat base + disp16), charge cpu 4)
                else if modrm_mod cpu = MOD_DISP8
                then (unat (of_nat base + disp8), charge cpu 4)
                else (base, cpu))
        in bindE (cpu8086_reg_word prefix) (\<lambda>p.
           bindE (host_read_word cpu p) (\<lambda>seg.
             Inr (cpu\<lparr>rm := Num ((push_bit 4 (unat seg) + ea) AND 0xFFFFF)\<rparr>))))"

text \<open>
  The choice of the stage after the ModRM byte, and the same choice, with the ModRM
  stage first, after the opcode byte.
\<close>

definition after_modrm :: "opcode \<Rightarrow> cpu8086 \<Rightarrow> outcome" where
  "after_modrm op cpu =
     (if op_source op = LOC_IMM \<or> op_source op = LOC_IMM8
      then stage_fetch_imm (Inr op) (cpu\<lparr>stage := CPU8086_FETCH_IMM\<rparr>)
      else if op_destination op = LOC_ADDR \<or> op_source op = LOC_ADDR
              \<or> op_source op = LOC_SEGOFF
      then stage_fetch_address (Inr op) (cpu\<lparr>stage := CPU8086_FETCH_ADDRESS\<rparr>)
      else stage_decode_loc (Inr op) (cpu\<lparr>stage := CPU8086_DECODE_LOC\<rparr>))"

definition stage_fetch_modrm :: "fault + opcode \<Rightarrow> cpu8086 \<Rightarrow> outcome" where
  "stage_fetch_modrm opp cpu =
     (if mt cpu then Some (Inr cpu)
      else
        bindF (if modrm_byte cpu = MODRM_NONE
               then bindE (cpu8086_prefetch_dequeue cpu) (\<lambda>(b, cpu).
                      Inr (cpu\<lparr>modrm_byte := ucast b\<rparr>))
               else Inr cpu) (\<lambda>cpu.
          let is_disp16 = ((modrm_mod cpu = 0 \<and> modrm_rm cpu = 6)
                           \<or> modrm_mod cpu = MOD_DISP16) in
        dequeue_into ((modrm_mod cpu = MOD_DISP8 \<or> is_disp16) \<and> disp8_byte cpu = DISP8_NONE)
          (\<lambda>b cpu. cpu\<lparr>disp8_byte := b\<rparr>) cpu (\<lambda>cpu.
        dequeue_into (is_disp16 \<and> disp16_byte cpu = DISP16_NONE)
          (\<lambda>b cpu. cpu\<lparr>disp16_byte := b\<rparr>) cpu (\<lambda>cpu.
        bindF opp (\<lambda>op.
          let cpu = cpu\<lparr>modrm_is_segreg :=
                      (op_destination op = LOC_SREG \<or> op_source op = LOC_SREG)\<rparr> in
        bindF (if is_word op
               then cpu8086_reg_word (modrm_reg cpu + 8 * (if modrm_is_segreg cpu then 1 else 0))
               else cpu8086_reg_byte (modrm_reg cpu)) (\<lambda>p.
          let cpu = cpu\<lparr>reg := p\<rparr> in
        bindF (if modrm_mod cpu = MOD_REG
               then bindE (if is_word op then cpu8086_reg_word (modrm_reg cpu)
                           else cpu8086_reg_byte (modrm_rm cpu)) (\<lambda>p. Inr (cpu\<lparr>rm := p\<rparr>))
               else effective_address cpu) (\<lambda>cpu.
          after_modrm op cpu)))))))"

definition stage_ready :: "cpu8086 \<Rightarrow> outcome" where
  "stage_ready cpu =
     bindF (cpu8086_prefetch_dequeue cpu) (\<lambda>(byte, cpu).
       if byte = PREFIX_G1_LOCK then Some (Inr (cpu\<lparr>cycles := 1\<rparr>))
       else if byte = PREFIX_G1_REPNZ \<or> byte = PREFIX_G1_REPZ
       then Some (Inr (cpu\<lparr>repeat := True, prefix_g1 := byte, cycles := 1\<rparr>))
       else if byte = PREFIX_G2_ES \<or> byte = PREFIX_G2_CS \<or> byte = PREFIX_G2_SS
               \<or> byte = PREFIX_G2_DS
       then Some (Inr (cpu\<lparr>prefix_g2 := byte, cycles := 1\<rparr>))
       else
         let cpu = cpu\<lparr>opcode_byte := ucast byte\<rparr> in
         bindF (op_table_at (unat (opcode_byte cpu))) (\<lambda>op.
           let cpu = (if repeat cpu \<and> \<not> is_string op then cpu\<lparr>repeat := False\<rparr> else cpu) in
           if op_destination op = LOC_RM \<or> op_source op = LOC_RM
           then stage_fetch_modrm (Inr op) (cpu\<lparr>stage := CPU8086_FETCH_MODRM\<rparr>)
           else after_modrm op cpu))"

text \<open>
  \<open>switch (cpu->stage)\<close> at the label \<open>next_stage\<close>, entered from the top of the clock. \<open>opp\<close>
  is the pointer \<open>op\<close>: the table entry of \<open>opcode_byte\<close>, and not initialised when
  \<open>opcode_byte\<close> is \<open>OPCODE_NONE\<close>.
\<close>

definition next_stage :: "fault + opcode \<Rightarrow> cpu8086 \<Rightarrow> outcome" where
  "next_stage opp cpu =
     (case stage cpu of
        CPU8086_READY \<Rightarrow> stage_ready cpu
      | CPU8086_FETCH_MODRM \<Rightarrow> stage_fetch_modrm opp cpu
      | CPU8086_FETCH_IMM \<Rightarrow> stage_fetch_imm opp cpu
      | CPU8086_FETCH_ADDRESS \<Rightarrow> stage_fetch_address opp cpu
      | CPU8086_DECODE_LOC \<Rightarrow> stage_decode_loc opp cpu
      | CPU8086_EXECUTING \<Rightarrow> stage_executing opp cpu)"

definition eu_step :: "cpu8086 \<Rightarrow> outcome" where
  "eu_step cpu =
     (let cpu = (if opcode_byte cpu = 0x9B \<and> test cpu then charge cpu 5 else cpu) in
      if cycles cpu > 0 then Some (Inr (cpu\<lparr>cycles := cycles cpu - 1\<rparr>))
      else if mt cpu then Some (Inr cpu)
      else
        let cpu = (if stage cpu = CPU8086_EXECUTING then cpu8086_reset_execution_regs cpu
                   else cpu);
            opp = (if opcode_byte cpu \<noteq> OPCODE_NONE then op_table_at (unat (opcode_byte cpu))
                   else Inl Undefined_behaviour)
        in next_stage opp cpu)"

definition cpu8086_clock :: "cpu8086 \<Rightarrow> outcome" where
  "cpu8086_clock cpu = bindF (biu_step cpu) eu_step"

text \<open>\<open>n\<close> ticks one after the other, stopping at the first that faults or does not return.\<close>

fun clocks :: "nat \<Rightarrow> cpu8086 \<Rightarrow> outcome" where
  "clocks 0 cpu = Some (Inr cpu)"
| "clocks (Suc n) cpu =
     (case cpu8086_clock cpu of
        None \<Rightarrow> None
      | Some (Inl e) \<Rightarrow> Some (Inl e)
      | Some (Inr cpu') \<Rightarrow> clocks n cpu')"

section \<open>The host program\<close>

text \<open>
  \<open>main\<close> creates the machine with \<open>bus_new\<close> (memory zeroed by \<open>calloc\<close>, the CPU created
  and reset), copies a program to \<open>0xFFFF0\<close> with \<open>memcpy\<close> and presets registers. The
  machine is the CPU structure with its bus.
\<close>

definition bus_new :: cpu8086 where
  "bus_new = cpu8086_new \<lparr>memory = (\<lambda>a. 0)\<rparr>"

definition memcpy_bus :: "nat \<Rightarrow> u8 list \<Rightarrow> cpu8086 \<Rightarrow> cpu8086" where
  "memcpy_bus base bs cpu =
     cpu\<lparr>bus := (bus cpu)\<lparr>memory :=
       (\<lambda>a. if base \<le> a \<and> a < base + length bs then bs ! (a - base)
            else memory (bus cpu) a)\<rparr>\<rparr>"

text \<open>\<open>RET\<close> (\<open>C3\<close>) with the return address \<open>0x1234\<close> on the stack at \<open>SS:SP = 0000:0100\<close>.\<close>

definition machine_ret :: cpu8086 where
  "machine_ret =
     set_reg16 (memcpy_bus 0x100 [0x34, 0x12] (memcpy_bus 0xFFFF0 [0xC3] bus_new)) SP 0x100"

text \<open>
  \<open>REP MOVSB\<close> (\<open>F3 A4\<close>) with DS = ES = 0, SI = \<open>0x100\<close>, DI = \<open>0x200\<close>, CX = 4, DF = 0 and
  \<open>AA BB CC DD\<close> at \<open>0x100\<close>.
\<close>

definition machine_rep_movsb :: cpu8086 where
  "machine_rep_movsb =
     (let m = memcpy_bus 0x100 [0xAA, 0xBB, 0xCC, 0xDD] (memcpy_bus 0xFFFF0 [0xF3, 0xA4] bus_new);
          m = set_reg16 m SI 0x100;
          m = set_reg16 m DI 0x200
      in set_reg16 m CX 4)"

text \<open>\<open>MOV AH, AL\<close> (\<open>8A E0\<close>) with AX = \<open>0x0042\<close>.\<close>

definition machine_mov_ah_al :: cpu8086 where
  "machine_mov_ah_al = set_reg16 (memcpy_bus 0xFFFF0 [0x8A, 0xE0] bus_new) AX 0x0042"

text \<open>\<open>CALL F000:E05B\<close> (\<open>9A 5B E0 00 F0\<close>).\<close>

definition machine_call_far :: cpu8086 where
  "machine_call_far = memcpy_bus 0xFFFF0 [0x9A, 0x5B, 0xE0, 0x00, 0xF0] bus_new"

text \<open>
  \<open>LDS BX, [SI]\<close> (\<open>C5 1C\<close>) and \<open>LES BX, [SI]\<close> (\<open>C4 1C\<close>) with SI = \<open>0x100\<close> and the far
  pointer \<open>5678:1234\<close> at \<open>DS:0100\<close>.
\<close>

definition machine_lds :: cpu8086 where
  "machine_lds =
     set_reg16 (memcpy_bus 0x100 [0x34, 0x12, 0x78, 0x56] (memcpy_bus 0xFFFF0 [0xC5, 0x1C] bus_new))
       SI 0x100"

definition machine_les :: cpu8086 where
  "machine_les =
     set_reg16 (memcpy_bus 0x100 [0x34, 0x12, 0x78, 0x56] (memcpy_bus 0xFFFF0 [0xC4, 0x1C] bus_new))
       SI 0x100"

text \<open>\<open>JMP F000:E05B\<close> (\<open>EA 5B E0 00 F0\<close>), the first bytes of the PC/XT BIOS entry.\<close>

definition machine_jmp_far :: cpu8086 where
  "machine_jmp_far = memcpy_bus 0xFFFF0 [0xEA, 0x5B, 0xE0, 0x00, 0xF0] bus_new"

text \<open>\<open>INC AX\<close> (\<open>40\<close>) with AX = \<open>0x0002\<close>.\<close>

definition machine_inc_ax :: cpu8086 where
  "machine_inc_ax = set_reg16 (memcpy_bus 0xFFFF0 [0x40] bus_new) AX 0x0002"

text \<open>
  \<open>MOV SP, <segment register 4>\<close> (\<open>8C E4\<close>): the \<open>reg\<close> field of the ModR/M byte is 4, one
  past DS in the segment-register numbering.
\<close>

definition machine_mov_sp_sreg4 :: cpu8086 where
  "machine_mov_sp_sreg4 = memcpy_bus 0xFFFF0 [0x8C, 0xE4] bus_new"

section \<open>Parity as the specification words it\<close>

text \<open>
  The parity flag as the specification gives it: set when the low 8 bits of the result
  hold an even number of ones.
\<close>

definition even_parity_low8 :: "u16 \<Rightarrow> bool" where
  "even_parity_low8 r = even (length (filter (bit r) [0..<8]))"

text \<open>The same count for the high 8 bits of the result.\<close>

definition even_parity_high8 :: "u16 \<Rightarrow> bool" where
  "even_parity_high8 r = even (length (filter (\<lambda>i. bit r (i + 8)) [0..<8]))"


section \<open>States between and during instructions\<close>

text \<open>
  A state is steady when the repeat flag is set only between the prefix and its
  instruction (stage \<open>CPU8086_READY\<close>) or after the instruction has run (stage
  \<open>CPU8086_EXECUTING\<close>); the reset state is steady and the clock keeps states so. An
  outcome is sound when the call returned and left a steady state or a fault, and quiet
  when the state it left has the repeat flag clear.
\<close>

definition steady :: "cpu8086 \<Rightarrow> bool" where
  "steady cpu = (\<not> repeat cpu \<or> stage cpu = CPU8086_READY \<or> stage cpu = CPU8086_EXECUTING)"

definition returns_quiet :: "outcome \<Rightarrow> bool" where
  "returns_quiet r =
     (case r of None \<Rightarrow> False | Some (Inl e) \<Rightarrow> True | Some (Inr c) \<Rightarrow> \<not> repeat c)"

definition returns_sound :: "outcome \<Rightarrow> bool" where
  "returns_sound r =
     (case r of None \<Rightarrow> False | Some (Inl e) \<Rightarrow> True | Some (Inr c) \<Rightarrow> steady c)"

section \<open>Evaluation lemmas\<close>

lemmas reg_numbers = AX_def CX_def DX_def BX_def SP_def BP_def SI_def DI_def
  ES_def CS_def SS_def DS_def

lemmas flag_bits = FLAG_CARRY_def FLAG_PARITY_def FLAG_AUXILIARY_def FLAG_ZERO_def
  FLAG_SIGN_def FLAG_TRAP_def FLAG_INTENABLE_def FLAG_DIRECTION_def FLAG_OVERFLOW_def

lemmas sentinels = OPCODE_NONE_def MODRM_NONE_def DISP8_NONE_def DISP16_NONE_def IMM8_NONE_def
  IMM16_NONE_def LO_SEGMENT_NONE_def HI_SEGMENT_NONE_def PREFIX_G1_NONE_def PREFIX_G2_NONE_def
  PREFIX_G1_LOCK_def PREFIX_G1_REPNZ_def PREFIX_G1_REPZ_def PREFIX_G2_ES_def PREFIX_G2_CS_def
  PREFIX_G2_SS_def PREFIX_G2_DS_def MOD_REG_def MOD_DISP8_def MOD_DISP16_def MOD_INDIRECT_def

lemmas register_defs = set_reg16_def set16_def reg16_def get16_def al_def ah_def set_al_def
  set_ah_def

lemmas reset_defs = bus_new_def memcpy_bus_def cpu8086_new_def cpu8086_reset_def zeroed_cpu_def
  zeroed_location_def cpu8086_reset_execution_regs_def

lemmas clock_defs = cpu8086_clock_def biu_step_def biu_fetch_def biu_countdown_def c_rem_def
  eu_step_def next_stage_def stage_ready_def stage_fetch_modrm_def stage_fetch_imm_def
  stage_fetch_address_def stage_decode_loc_def stage_executing_def after_modrm_def
  dequeue_into_def bindF_def bindE_def cpu8086_prefetch_dequeue_def charge_def
  effective_address_def ea_base_def string_advance_def delta_table_def

lemmas loc_defs = loc_set_def loc_read_def loc_write_def loc_read_word_def loc_read_byte_def
  loc_write_word_def loc_write_byte_def host_read_word_def host_read_byte_def host_write_word_def
  host_write_byte_def struct_byte_def struct_byte_set_def byte_of_def with_byte_def
  uintptr_number_def uintptr_add_def cpu8086_reg_word_def
  cpu8086_reg_byte_def REGISTER_COUNT_def REG_FIELD_def override_segment_def c_div_def
  modrm_mod_def modrm_reg_def modrm_rm_def bus_read_short_def bus_read_byte_def
  bus_write_short_def bus_write_byte_def operand_types_def

lemmas machine_defs = reset_defs register_defs clock_defs loc_defs reg_numbers sentinels
  cpu8086_push_def cpu8086_pop_def cpu8086_jump_def call_def call_basic_def

lemmas op_rows = op_table_00_def op_table_10_def op_table_20_def op_table_30_def op_table_40_def
  op_table_50_def op_table_60_def op_table_70_def op_table_80_def op_table_90_def op_table_A0_def
  op_table_B0_def op_table_C0_def

lemma length_op_table: "length op_table = 204"
  by (simp add: op_table_def op_rows)

lemma op_table_at_40:
  "op_table_at 0x40 = Inr (opc ''INC'' LOC_AX LOC_NULL True False (Some Op_inc))"
  by (simp add: op_table_at_def length_op_table) (simp add: op_table_def op_rows nth_append)

lemma op_table_at_8A:
  "op_table_at 0x8A = Inr (opc ''MOV'' LOC_REG LOC_RM False False (Some Op_mov))"
  by (simp add: op_table_at_def length_op_table) (simp add: op_table_def op_rows nth_append)

lemma op_table_at_8C:
  "op_table_at 0x8C = Inr (opc ''MOV'' LOC_RM LOC_SREG True False (Some Op_mov))"
  by (simp add: op_table_at_def length_op_table) (simp add: op_table_def op_rows nth_append)

lemma op_table_at_9A:
  "op_table_at 0x9A = Inr (opc ''CALL'' LOC_NULL LOC_SEGOFF True False (Some Op_callfar))"
  by (simp add: op_table_at_def length_op_table) (simp add: op_table_def op_rows nth_append)

lemma op_table_at_A4:
  "op_table_at 0xA4 = Inr (opc ''MOVSB'' LOC_STRDST LOC_STRSRC False True (Some Op_mov))"
  by (simp add: op_table_at_def length_op_table) (simp add: op_table_def op_rows nth_append)

lemma op_table_at_C3:
  "op_table_at 0xC3 = Inr (opc ''RET'' LOC_NULL LOC_NULL True False (Some Op_retnear))"
  by (simp add: op_table_at_def length_op_table) (simp add: op_table_def op_rows nth_append)

lemma op_table_at_C4:
  "op_table_at 0xC4 = Inr (opc ''LES'' LOC_REG LOC_RM True False (Some Op_les))"
  by (simp add: op_table_at_def length_op_table) (simp add: op_table_def op_rows nth_append)

lemma op_table_at_C5:
  "op_table_at 0xC5 = Inr (opc ''LDS'' LOC_REG LOC_RM True False (Some Op_lds))"
  by (simp add: op_table_at_def length_op_table) (simp add: op_table_def op_rows nth_append)

lemma op_table_at_beyond: "204 \<le> i \<Longrightarrow> op_table_at i = Inl Undefined_behaviour"
  by (simp add: op_table_at_def length_op_table)

lemmas op_lookups = op_table_at_40 op_table_at_8A op_table_at_8C op_table_at_9A op_table_at_A4 op_table_at_C3 op_table_at_C4
  op_table_at_C5 opc_def

lemma clocks_numeral:
  "clocks (numeral n) cpu =
     (case cpu8086_clock cpu of
        None \<Rightarrow> None
      | Some (Inl e) \<Rightarrow> Some (Inl e)
      | Some (Inr cpu') \<Rightarrow> clocks (pred_numeral n) cpu')"
  by (simp add: numeral_eq_Suc)

lemma minus_one_u8: "uint (- 1 :: u8) = 255" "unat (- 1 :: u8) = 255"
  by (simp_all add: unsigned_minus_1_eq_mask mask_eq_exp_minus_1)

lemmas run_simps = clocks_numeral machine_defs op_lookups exec_op.simps minus_one_u8 Let_def

section \<open>Control transfers and the prefetch queue\<close>

lemma jump_queue_fields:
  "mt (cpu8086_jump cpu cs' ip') = False"
  "hl (cpu8086_jump cpu cs' ip') = False"
  "q_r (cpu8086_jump cpu cs' ip') = q_w cpu"
  "q_w (cpu8086_jump cpu cs' ip') = q_w cpu"
  "ip (cpu8086_jump cpu cs' ip') = ip'"
  "current_ip (cpu8086_jump cpu cs' ip') = ip'"
  by (simp_all add: cpu8086_jump_def set_reg16_def Let_def)

text \<open>
  C1. Every control transfer clears the prefetch queue, setting the empty flag true, the
  half-byte cursor to zero and the read index to the write index, so that the queue is
  empty after a branch handler. The program does otherwise: \<open>cpu8086_jump\<close> stores
  \<open>false\<close> in the empty flag \<open>mt\<close>. Here \<open>RET\<close> runs on the fourth tick after reset and
  returns to \<open>0x1234\<close>; afterwards the cursor is zero and the two indices are equal, but
  the queue is marked not empty.
\<close>

theorem ret_leaves_queue_marked_not_empty:
  "(case clocks 4 machine_ret of
      Some (Inr cpu) \<Rightarrow>
        ip cpu = 0x1234 \<and> current_ip cpu = 0x1234 \<and> reg16 cpu SP = 0x102
        \<and> hl cpu = False \<and> q_r cpu = q_w cpu \<and> mt cpu = False
    | _ \<Rightarrow> False)"
  by (simp add: machine_ret_def run_simps op_retnear_def ret_release_def)

section \<open>Repeated string moves\<close>

text \<open>
  Both string operands of \<open>MOVSB\<close> resolve to the same place: the \<open>LOC_STRSRC\<close> case of
  \<open>loc_set\<close> runs on into \<open>LOC_STRDST\<close> and \<open>LOC_NULL\<close>, so the source too is at ES:DI and
  both have the category \<open>DECODED_NULL\<close>.
\<close>

lemma loc_set_string_source_is_destination:
  "prefix_g2 cpu = PREFIX_G2_NONE \<Longrightarrow>
   loc_set cpu loc LOC_STRSRC = loc_set cpu loc LOC_STRDST"
  by (simp add: loc_set_def cpu8086_reg_word_def host_read_word_def bindE_def Let_def
      REGISTER_COUNT_def DS_def)

lemma loc_set_string_destination:
  "loc_set cpu loc LOC_STRDST =
     Inr \<lparr>type = DECODED_NULL,
          address = Num (push_bit 4 (unat (reg16 cpu ES)) + unat (reg16 cpu DI)),
          virtual = True\<rparr>"
  by (simp add: loc_set_def Let_def)

text \<open>
  C2. \<open>REP MOVSB\<close> with CX = N copies N bytes from DS:SI to ES:DI, leaves CX = 0 and
  advances SI and DI by N. The program does otherwise for N = 4: with \<open>F3 A4\<close> at the
  reset vector, SI = \<open>0x100\<close>, DI = \<open>0x200\<close>, CX = 4 and \<open>AA BB CC DD\<close> at \<open>0x100\<close>, the
  tick that dispatches \<open>MOVSB\<close> (the sixth after reset) ends in the failed assertion of
  \<open>op_mov\<close>'s cycle switch, in the first iteration. No byte has been copied.
\<close>

theorem rep_movsb_fails_assertion:
  "(case clocks 5 machine_rep_movsb of
      Some (Inr cpu) \<Rightarrow>
        repeat cpu \<and> reg16 cpu CX = 4 \<and> reg16 cpu SI = 0x100 \<and> reg16 cpu DI = 0x200
        \<and> map (memory (bus cpu)) [0x100, 0x101, 0x102, 0x103] = [0xAA, 0xBB, 0xCC, 0xDD]
        \<and> map (memory (bus cpu)) [0x200, 0x201, 0x202, 0x203] = [0, 0, 0, 0]
        \<and> (case cpu8086_clock cpu of Some (Inl e) \<Rightarrow> e = Assertion_failed | _ \<Rightarrow> False)
    | _ \<Rightarrow> False)"
  by (simp add: machine_rep_movsb_def run_simps op_mov_def mov_cycles_def)

section \<open>Byte registers\<close>

lemma cpu8086_reg_byte_offsets:
  "map cpu8086_reg_byte [0, 1, 2, 3, 4, 5, 6, 7] =
     [Inr (Regs_at 0), Inr (Regs_at 2), Inr (Regs_at 4), Inr (Regs_at 6),
      Inr (Regs_at 4), Inr (Regs_at 6), Inr (Regs_at 8), Inr (Regs_at 10)]"
  by (simp add: cpu8086_reg_byte_def REG_FIELD_def)

text \<open>
  C3. Register numbers 0 to 3 select AL, CL, DL, BL and 4 to 7 select AH, CH, DH, BH.
  The program does otherwise: \<open>cpu8086_reg_byte\<close> adds \<open>reg & 0b100\<close>, four bytes, where the
  high byte is one byte on, so numbers 4 to 7 give the low bytes of DX, BX, SP and BP.
  Here \<open>MOV AH, AL\<close> runs with AX = \<open>0x0042\<close>: AX is unchanged and DX becomes \<open>0x0042\<close>.
\<close>

theorem mov_ah_al_writes_dl:
  "(case clocks 4 machine_mov_ah_al of
      Some (Inr cpu) \<Rightarrow>
        opcode_byte cpu = 0x8A \<and> modrm_byte cpu = 0xE0 \<and> stage cpu = CPU8086_EXECUTING
        \<and> reg cpu = Regs_at 4 \<and> rm cpu = Regs_at 0
        \<and> reg16 cpu AX = 0x0042 \<and> ah cpu = 0 \<and> reg16 cpu DX = 0x0042
    | _ \<Rightarrow> False)"
  by (simp add: machine_mov_ah_al_def run_simps op_mov_def mov_cycles_def)

text \<open>
  A segment-register operand whose \<open>reg\<close> field is 4 to 7 is register number 12 to 15:
  \<open>cpu8086_reg_word\<close> lets it through and the pointer lands past DS. With \<open>reg\<close> = 4 it is
  the field \<open>ip\<close>: here \<open>8C E4\<close> copies IP, 2 after the first prefetch, into SP.
\<close>

lemma mov_from_segment_register_4_reads_ip:
  "(case clocks 4 machine_mov_sp_sreg4 of
      Some (Inr cpu) \<Rightarrow>
        opcode_byte cpu = 0x8C \<and> modrm_byte cpu = 0xE4 \<and> stage cpu = CPU8086_EXECUTING
        \<and> reg cpu = Regs_at 24 \<and> rm cpu = Regs_at 8
        \<and> ip cpu = 2 \<and> reg16 cpu SP = 2
    | _ \<Rightarrow> False)"
  by (simp add: machine_mov_sp_sreg4_def run_simps op_mov_def mov_cycles_def)

section \<open>Far calls\<close>

text \<open>
  C4. Far \<open>CALL\<close> pushes CS and \<open>current_ip\<close> and loads IP with the offset word and CS with
  the segment word of its operand, composed as \<open>(seg_hi<<24)|(seg_lo<<16)|(off_hi<<8)|off_lo\<close>.
  The program does otherwise: the decoder puts the first two operand bytes (the offset)
  in the high half of \<open>immediate\<close> and the last two (the segment) in the low half, and
  \<open>op_callfar\<close> reads IP from the low half. Here \<open>CALL F000:E05B\<close> ends with CS = \<open>0xE05B\<close> and
  IP = \<open>0xF000\<close>.
\<close>

theorem call_far_swaps_segment_and_offset:
  "(case clocks 12 machine_call_far of
      Some (Inr cpu) \<Rightarrow>
        opcode_byte cpu = 0x9A \<and> stage cpu = CPU8086_EXECUTING
        \<and> [imm8_byte cpu, imm16_byte cpu, lo_segment cpu, hi_segment cpu] = [0x5B, 0xE0, 0x00, 0xF0]
        \<and> immediate cpu = 0xE05BF000
        \<and> reg16 cpu SP = 0xFFFC
        \<and> bus_read_short (bus cpu) 0xFFFE = 0xFFFF \<and> bus_read_short (bus cpu) 0xFFFC = 5
        \<and> reg16 cpu CS = 0xE05B \<and> ip cpu = 0xF000
    | _ \<Rightarrow> False)"
  by (simp add: machine_call_far_def run_simps op_callfar_def)

section \<open>Loading far pointers\<close>

text \<open>
  \<open>LES BX, [SI]\<close> with the far pointer \<open>5678:1234\<close> at DS:SI loads BX and ES.
\<close>

lemma les_loads_es:
  "(case clocks 4 machine_les of
      Some (Inr cpu) \<Rightarrow>
        reg16 cpu BX = 0x1234 \<and> reg16 cpu ES = 0x5678 \<and> reg16 cpu DS = 0
    | _ \<Rightarrow> False)"
  by (simp add: machine_les_def run_simps op_les_def)

text \<open>
  C6. \<open>LDS\<close> reads the word at the operand's address into the destination register and
  the word two bytes on into DS; \<open>LES\<close> loads that second word into ES. The program does
  otherwise for \<open>LDS\<close>: \<open>op_lds\<close> has the body of \<open>op_les\<close> and stores the segment in ES. Here
  \<open>LDS BX, [SI]\<close> runs with the far pointer \<open>5678:1234\<close> at DS:SI: BX is \<open>0x1234\<close>, ES is
  \<open>0x5678\<close> and DS is still zero.
\<close>

theorem lds_loads_es_not_ds:
  "(case clocks 4 machine_lds of
      Some (Inr cpu) \<Rightarrow>
        opcode_byte cpu = 0xC5 \<and> stage cpu = CPU8086_EXECUTING
        \<and> address (source cpu) = Num 0x102
        \<and> reg16 cpu BX = 0x1234 \<and> reg16 cpu ES = 0x5678 \<and> reg16 cpu DS = 0
    | _ \<Rightarrow> False)"
  by (simp add: machine_lds_def run_simps op_lds_def)

section \<open>The opcode table\<close>

lemma null_handler_fails_assertion:
  "func op = None \<Longrightarrow> stage_executing (Inr op) cpu = Some (Inl Assertion_failed)"
  by (simp add: stage_executing_def bindF_def)

text \<open>
  C8. Any byte that reaches the decoder as an opcode is looked up in the root opcode
  table within its bounds, and an entry without a handler stops at the assertion of the
  executing stage. The program does otherwise: the table has 204 entries, the last for
  \<open>0xCB\<close>, and the decoder indexes it with the byte unchecked. Here \<open>JMP F000:E05B\<close>, whose
  opcode is \<open>0xEA\<close>, is read on the fourth tick after reset, and the lookup is outside the
  table.
\<close>

theorem opcode_EA_is_outside_the_table:
  "length op_table = 204
   \<and> op_table_at 0xEA = Inl Undefined_behaviour
   \<and> (case clocks 3 machine_jmp_far of
         Some (Inr cpu) \<Rightarrow>
           stage cpu = CPU8086_READY \<and> biu_prefetch_cycles cpu = 0
           \<and> bus_read_byte (bus cpu) (push_bit 4 (unat (reg16 cpu CS)) + unat (ip cpu)) = 0xEA
           \<and> (case cpu8086_clock cpu of Some (Inl e) \<Rightarrow> e = Undefined_behaviour | _ \<Rightarrow> False)
       | _ \<Rightarrow> False)"
  by (simp add: length_op_table op_table_at_beyond machine_jmp_far_def run_simps)

section \<open>The parity flag\<close>

lemma parity_table_even:
  "\<forall>n \<in> set [0..<256]. parity_table ! n = even (length (filter (bit n) [0..<8]))"
  by code_simp

lemma low8_bound: "unat ((w :: u32) AND 0xFF) < 256"
proof -
  have "(0xFF :: u32) = mask 8" by (simp add: mask_eq_exp_minus_1)
  then have "w AND 0xFF = take_bit 8 w" by (simp add: take_bit_eq_mask)
  then show ?thesis
    using take_bit_nat_less_exp[of 8 "unat w"] by (simp add: unsigned_take_bit_eq)
qed

lemma parity_table_entry:
  "parity_table ! unat ((w :: u32) AND 0xFF)
   = even (length (filter (bit (unat (w AND 0xFF))) [0..<8]))"
proof -
  have "unat (w AND 0xFF) \<in> set [0..<256]" using low8_bound[of w] by simp
  then show ?thesis using parity_table_even by blast
qed

lemma low8_bits: "i < 8 \<Longrightarrow> bit (unat ((ucast (r :: u16) :: u32) AND 0xFF)) i = bit r i"
proof -
  assume i: "i < 8"
  have m: "(0xFF :: u32) = mask 8" by (simp add: mask_eq_exp_minus_1)
  show ?thesis unfolding m using i by (simp add: bit_simps)
qed

lemma high8_bits:
  "i < 8 \<Longrightarrow> bit (unat (drop_bit 8 (ucast (r :: u16) :: u32) AND 0xFF)) i = bit r (i + 8)"
proof -
  assume i: "i < 8"
  have m: "(0xFF :: u32) = mask 8" by (simp add: mask_eq_exp_minus_1)
  show ?thesis unfolding m using i by (simp add: bit_simps add.commute)
qed

lemma parity_low_byte:
  "parity_table ! unat ((ucast (r :: u16) :: u32) AND 0xFF) = even_parity_low8 r"
proof -
  have "filter (bit (unat ((ucast r :: u32) AND 0xFF))) [0..<8] = filter (bit r) [0..<8]"
    by (rule filter_cong) (simp_all add: low8_bits)
  then show ?thesis by (simp add: parity_table_entry even_parity_low8_def)
qed

lemma parity_high_byte:
  "parity_table ! unat (drop_bit 8 (ucast (r :: u16) :: u32) AND 0xFF) = even_parity_high8 r"
proof -
  have "filter (bit (unat (drop_bit 8 (ucast r :: u32) AND 0xFF))) [0..<8]
        = filter (\<lambda>i. bit r (i + 8)) [0..<8]"
    by (rule filter_cong) (simp_all add: high8_bits)
  then show ?thesis by (simp add: parity_table_entry even_parity_high8_def)
qed

lemma flag_is_bit: "n < 16 \<Longrightarrow> cpu8086_getflag cpu (push_bit n 1) = bit (flags cpu) n"
  by (simp add: cpu8086_getflag_def push_bit_eq_mult and_exp_eq_0_iff_not_bit)

lemma setflag_bit:
  "m < 16 \<Longrightarrow>
   bit (flags (cpu8086_setflag cpu (push_bit m 1) t)) n = (if n = m then t else bit (flags cpu) n)"
  by (auto simp add: cpu8086_setflag_def bit_simps dest: bit_imp_le_length)

lemma parity_flag_set:
  "cpu8086_getflag (cpu8086_setpzs_flags cpu r w) FLAG_PARITY = calculate_parity (ucast r) w"
  by (simp add: cpu8086_setpzs_flags_def Let_def FLAG_PARITY_def FLAG_ZERO_def FLAG_SIGN_def
      flag_is_bit[of 2, simplified] setflag_bit[of 2, simplified] setflag_bit[of 6, simplified]
      setflag_bit[of 7, simplified])

text \<open>
  What \<open>cpu8086_setpzs_flags\<close> leaves in the parity flag, for every state and result. A
  byte-sized operation gets the even parity of the low 8 bits, the table's "1 = even".
  A word-sized operation gets the exclusive or of the two bytes' table entries: the flag
  is set when exactly one of the two bytes has even parity, so it is the even parity of
  the low 8 bits only when the high byte has an odd number of ones, and its opposite
  whenever the high byte has an even number of ones (a high byte of zero among them).
\<close>

lemma byte_parity_flag:
  "cpu8086_getflag (cpu8086_setpzs_flags cpu r False) FLAG_PARITY = even_parity_low8 r"
  by (simp add: parity_flag_set calculate_parity_def parity_low_byte)

lemma word_parity_flag:
  "cpu8086_getflag (cpu8086_setpzs_flags cpu r True) FLAG_PARITY
   = (even_parity_low8 r \<noteq> even_parity_high8 r)"
  by (simp add: parity_flag_set calculate_parity_def parity_low_byte parity_high_byte)

lemma word_parity_flag_wrong_iff:
  "(cpu8086_getflag (cpu8086_setpzs_flags cpu r True) FLAG_PARITY \<noteq> even_parity_low8 r)
   = even_parity_high8 r"
  by (auto simp add: word_parity_flag)

lemma word_parity_flag_of_0003:
  "even_parity_low8 0x0003
   \<and> \<not> cpu8086_getflag (cpu8086_setpzs_flags cpu 0x0003 True) FLAG_PARITY"
  by (simp add: word_parity_flag even_parity_low8_def even_parity_high8_def upt_rec)

text \<open>
  C5. The parity flag of every result is the even parity of its low 8 bits, for
  word-sized operations as for byte-sized ones. The program does otherwise for word-sized
  results: \<open>calculate_parity\<close> combines the table entries of both bytes with \<open>^\<close>, and two
  entries of a table that holds 1 for even cancel. Here \<open>INC AX\<close> runs with AX = \<open>0x0002\<close>:
  the result \<open>0x0003\<close> has two ones in its low byte, and the parity flag is left clear.
\<close>

theorem inc_ax_leaves_parity_flag_clear:
  "(case clocks 4 machine_inc_ax of
      Some (Inr cpu) \<Rightarrow>
        opcode_byte cpu = 0x40 \<and> stage cpu = CPU8086_EXECUTING
        \<and> reg16 cpu AX = 0x0003 \<and> even_parity_low8 (reg16 cpu AX)
        \<and> \<not> cpu8086_getflag cpu FLAG_PARITY
    | _ \<Rightarrow> False)"
  by (simp add: machine_inc_ax_def run_simps op_inc_def incdec_cycles_def
      cpu8086_setpzs_flags_def cpu8086_setflag_def cpu8086_getflag_def calculate_parity_def
      parity_table_def P6_def P4_def P2_def flag_bits mask_buffer_def sign_bit_def
      even_parity_low8_def upt_rec)

section \<open>The bus interface unit\<close>

lemma biu_step_counts_down:
  "mt cpu \<or> q_w cpu \<noteq> q_r cpu \<Longrightarrow> biu_prefetch_cycles cpu \<noteq> 0 \<Longrightarrow>
   biu_step cpu = Inr (cpu\<lparr>biu_prefetch_cycles := biu_countdown (biu_prefetch_cycles cpu)\<rparr>)"
  by (simp add: biu_step_def bindE_def)

lemma biu_step_idle:
  "\<not> mt cpu \<Longrightarrow> q_w cpu = q_r cpu \<Longrightarrow> biu_step cpu = Inr cpu"
  by (simp add: biu_step_def)





section \<open>The stack\<close>

lemma split16_masked:
  "(ucast (ucast (d AND 0xFF :: u16) :: u8) :: u16)
     OR push_bit 8 (ucast (ucast (drop_bit 8 d) :: u8)) = d"
proof -
  have m: "(0xFF :: u16) = mask 8" by (simp add: mask_eq_exp_minus_1)
  show ?thesis unfolding m by (rule bit_word_eqI) (auto simp add: bit_simps)
qed

lemma split16:
  "(ucast (ucast (d :: u16) :: u8) :: u16) OR push_bit 8 (ucast (ucast (drop_bit 8 d) :: u8)) = d"
  by (rule bit_word_eqI) (auto simp add: bit_simps)

lemma mask20_succ: "(a :: nat) AND 0xFFFFF \<noteq> (a + 1) AND 0xFFFFF"
proof -
  have m: "(0xFFFFF :: nat) = mask 20" by (simp add: mask_eq_exp_minus_1)
  have "a mod 2 ^ 20 \<noteq> (a + 1) mod 2 ^ 20"
  proof
    assume e: "a mod 2 ^ 20 = (a + 1) mod 2 ^ 20"
    have "(a + 1) mod 2 ^ 20 = (if a mod 2 ^ 20 + 1 = 2 ^ 20 then 0 else a mod 2 ^ 20 + 1)"
      using mod_Suc[of a "2 ^ 20"] by simp
    with e show False by (simp split: if_splits)
  qed
  then show ?thesis unfolding m by (simp add: take_bit_eq_mask[symmetric] take_bit_eq_mod)
qed

lemma bus_write_read_short: "bus_read_short (bus_write_short b a d) a = d"
  using mask20_succ[of a]
  by (simp add: bus_read_short_def bus_write_short_def Let_def split16_masked)

lemma get16_set16: "get16 (set16 f k v) k = v"
  by (simp add: get16_def set16_def split16)

lemma get16_set16_other:
  "j \<noteq> k \<Longrightarrow> j \<noteq> k + 1 \<Longrightarrow> j + 1 \<noteq> k \<Longrightarrow> get16 (set16 f k v) j = get16 f j"
  by (simp add: get16_def set16_def)

text \<open>
  C9. For every word \<open>x\<close> and every SS:SP, a push of \<open>x\<close> followed by a pop returns \<open>x\<close>
  and leaves SP at its value before the push: the push decrements SP by 2 and then
  writes the word at SS:SP, the pop reads the word at SS:SP and then increments SP by 2.
\<close>

theorem push_pop_roundtrip:
  "fst (cpu8086_pop (cpu8086_push cpu x)) = x
   \<and> reg16 (snd (cpu8086_pop (cpu8086_push cpu x))) SP = reg16 cpu SP
   \<and> reg16 (cpu8086_push cpu x) SP = reg16 cpu SP - 2
   \<and> reg16 (cpu8086_push cpu x) SS = reg16 cpu SS
   \<and> bus_read_short (bus (cpu8086_push cpu x))
        (push_bit 4 (unat (reg16 cpu SS)) + unat (reg16 cpu SP - 2)) = x
   \<and> fst (cpu8086_pop cpu)
        = bus_read_short (bus cpu) (push_bit 4 (unat (reg16 cpu SS)) + unat (reg16 cpu SP))
   \<and> reg16 (snd (cpu8086_pop cpu)) SP = reg16 cpu SP + 2
   \<and> bus (snd (cpu8086_pop cpu)) = bus cpu"
  by (simp add: cpu8086_pop_def cpu8086_push_def Let_def reg16_def set_reg16_def get16_set16
      get16_set16_other bus_write_read_short SP_def SS_def)

theorem push_pop_roundtrip_witness:
  "fst (cpu8086_pop (cpu8086_push (set_reg16 bus_new SP 0x100) 0xBEEF)) = 0xBEEF
   \<and> reg16 (snd (cpu8086_pop (cpu8086_push (set_reg16 bus_new SP 0x100) 0xBEEF))) SP = 0x100
   \<and> reg16 (cpu8086_push (set_reg16 bus_new SP 0x100) 0xBEEF) SP = 0xFE"
  using push_pop_roundtrip [of "set_reg16 bus_new SP 0x100" "0xBEEF"]
  by (simp add: reset_defs register_defs reg_numbers Let_def)

section \<open>Every tick returns\<close>

text \<open>
  What the parts of a handler leave alone: the repeat flag and the stage, and, for the
  reads and writes of operands, the operand locations.
\<close>

lemma parts_keep:
  "repeat (charge cpu n) = repeat cpu" "stage (charge cpu n) = stage cpu"
  "destination (charge cpu n) = destination cpu" "source (charge cpu n) = source cpu"
  "repeat (cpu8086_setflag cpu fl t) = repeat cpu" "stage (cpu8086_setflag cpu fl t) = stage cpu"
  "destination (cpu8086_setflag cpu fl t) = destination cpu"
  "source (cpu8086_setflag cpu fl t) = source cpu"
  "repeat (cpu8086_setpzs_flags cpu r w) = repeat cpu"
  "stage (cpu8086_setpzs_flags cpu r w) = stage cpu"
  "destination (cpu8086_setpzs_flags cpu r w) = destination cpu"
  "source (cpu8086_setpzs_flags cpu r w) = source cpu"
  "repeat (set_reg16 cpu k v) = repeat cpu" "stage (set_reg16 cpu k v) = stage cpu"
  "destination (set_reg16 cpu k v) = destination cpu" "source (set_reg16 cpu k v) = source cpu"
  "repeat (set_al cpu b) = repeat cpu" "stage (set_al cpu b) = stage cpu"
  "repeat (set_ah cpu b) = repeat cpu" "stage (set_ah cpu b) = stage cpu"
  "repeat (cpu8086_push cpu v) = repeat cpu" "stage (cpu8086_push cpu v) = stage cpu"
  "repeat (cpu8086_jump cpu c i) = repeat cpu" "stage (cpu8086_jump cpu c i) = stage cpu"
  by (simp_all add: charge_def cpu8086_setflag_def cpu8086_setpzs_flags_def set_reg16_def
      set_al_def set_ah_def cpu8086_push_def cpu8086_jump_def Let_def)

lemma pop_keeps:
  "cpu8086_pop cpu = (w, c) \<Longrightarrow> repeat c = repeat cpu \<and> stage c = stage cpu"
  by (auto simp add: cpu8086_pop_def Let_def set_reg16_def)

lemma loc_read_word_keeps:
  "loc_read_word cpu loc = Inr (v, c) \<Longrightarrow>
   repeat c = repeat cpu \<and> stage c = stage cpu
   \<and> destination c = destination cpu \<and> source c = source cpu"
  by (auto simp add: loc_read_word_def bindE_def Let_def charge_def split: if_splits sum.splits)

lemma loc_read_keeps:
  "loc_read cpu loc = Inr (v, c) \<Longrightarrow>
   repeat c = repeat cpu \<and> stage c = stage cpu
   \<and> destination c = destination cpu \<and> source c = source cpu"
  by (auto simp add: loc_read_def bindE_def dest: loc_read_word_keeps split: if_splits sum.splits)

lemma struct_byte_set_keeps:
  "struct_byte_set cpu k d = Inr c \<Longrightarrow>
   repeat c = repeat cpu \<and> stage c = stage cpu
   \<and> destination c = destination cpu \<and> source c = source cpu"
  by (auto simp add: struct_byte_set_def split: if_splits)

lemma host_write_keeps:
  "host_write_word cpu p w = Inr c \<Longrightarrow>
   repeat c = repeat cpu \<and> stage c = stage cpu
   \<and> destination c = destination cpu \<and> source c = source cpu"
  "host_write_byte cpu p b = Inr c \<Longrightarrow>
   repeat c = repeat cpu \<and> stage c = stage cpu
   \<and> destination c = destination cpu \<and> source c = source cpu"
  by (auto simp add: host_write_word_def host_write_byte_def bindE_def
      dest!: struct_byte_set_keeps split: if_splits uintptr.splits sum.splits)

lemma loc_write_word_keeps:
  "loc_write_word cpu loc d = Inr c \<Longrightarrow>
   repeat c = repeat cpu \<and> stage c = stage cpu
   \<and> destination c = destination cpu \<and> source c = source cpu"
  by (auto simp add: loc_write_word_def bindE_def Let_def charge_def dest: host_write_keeps
      split: if_splits sum.splits)

lemma loc_write_byte_keeps:
  "loc_write_byte cpu loc d = Inr c \<Longrightarrow>
   repeat c = repeat cpu \<and> stage c = stage cpu
   \<and> destination c = destination cpu \<and> source c = source cpu"
  by (auto simp add: loc_write_byte_def bindE_def Let_def dest: host_write_keeps
      split: if_splits sum.splits)

lemma loc_write_keeps:
  "loc_write cpu loc d = Inr c \<Longrightarrow>
   repeat c = repeat cpu \<and> stage c = stage cpu
   \<and> destination c = destination cpu \<and> source c = source cpu"
  by (auto simp add: loc_write_def bindE_def dest: loc_write_word_keeps loc_write_byte_keeps
      split: if_splits sum.splits)

lemma cycles_keep:
  "alu_cycles cpu = Inr c \<Longrightarrow> repeat c = repeat cpu \<and> stage c = stage cpu"
  "cmp_cycles cpu = Inr c \<Longrightarrow> repeat c = repeat cpu \<and> stage c = stage cpu"
  "mov_cycles cpu = Inr c \<Longrightarrow> repeat c = repeat cpu \<and> stage c = stage cpu"
  "test_cycles cpu = Inr c \<Longrightarrow> repeat c = repeat cpu \<and> stage c = stage cpu"
  "incdec_cycles op cpu = Inr c \<Longrightarrow> repeat c = repeat cpu \<and> stage c = stage cpu"
  by (auto simp add: alu_cycles_def cmp_cycles_def mov_cycles_def test_cycles_def
      incdec_cycles_def Let_def parts_keep split: if_splits)

lemma ret_release_keeps:
  "ret_release a b cpu = Inr c \<Longrightarrow> repeat c = repeat cpu \<and> stage c = stage cpu"
  by (auto simp add: ret_release_def bindE_def Let_def parts_keep dest!: loc_read_keeps
      split: if_splits sum.splits)

lemma jump_if_keeps:
  "jump_if cond cpu = Inr c \<Longrightarrow> repeat c = repeat cpu \<and> stage c = stage cpu"
  by (auto simp add: jump_if_def bindE_def Let_def parts_keep dest!: loc_read_keeps
      split: if_splits sum.splits)

lemmas handler_steps = loc_read_keeps loc_write_keeps cycles_keep ret_release_keeps
  jump_if_keeps pop_keeps

lemma handlers_keep:
  "op_aaa op cpu = Inr c \<Longrightarrow> repeat c = repeat cpu \<and> stage c = stage cpu"
  "op_aas op cpu = Inr c \<Longrightarrow> repeat c = repeat cpu \<and> stage c = stage cpu"
  "op_adc op cpu = Inr c \<Longrightarrow> repeat c = repeat cpu \<and> stage c = stage cpu"
  "op_add op cpu = Inr c \<Longrightarrow> repeat c = repeat cpu \<and> stage c = stage cpu"
  "op_and op cpu = Inr c \<Longrightarrow> repeat c = repeat cpu \<and> stage c = stage cpu"
  "op_callfar op cpu = Inr c \<Longrightarrow> repeat c = repeat cpu \<and> stage c = stage cpu"
  "op_cbw op cpu = Inr c \<Longrightarrow> repeat c = repeat cpu \<and> stage c = stage cpu"
  "op_cmp op cpu = Inr c \<Longrightarrow> repeat c = repeat cpu \<and> stage c = stage cpu"
  "op_cwd op cpu = Inr c \<Longrightarrow> repeat c = repeat cpu \<and> stage c = stage cpu"
  "op_daa op cpu = Inr c \<Longrightarrow> repeat c = repeat cpu \<and> stage c = stage cpu"
  "op_das op cpu = Inr c \<Longrightarrow> repeat c = repeat cpu \<and> stage c = stage cpu"
  "op_dec op cpu = Inr c \<Longrightarrow> repeat c = repeat cpu \<and> stage c = stage cpu"
  "op_inc op cpu = Inr c \<Longrightarrow> repeat c = repeat cpu \<and> stage c = stage cpu"
  "op_ja op cpu = Inr c \<Longrightarrow> repeat c = repeat cpu \<and> stage c = stage cpu"
  "op_jae op cpu = Inr c \<Longrightarrow> repeat c = repeat cpu \<and> stage c = stage cpu"
  "op_jb op cpu = Inr c \<Longrightarrow> repeat c = repeat cpu \<and> stage c = stage cpu"
  "op_jbe op cpu = Inr c \<Longrightarrow> repeat c = repeat cpu \<and> stage c = stage cpu"
  "op_je op cpu = Inr c \<Longrightarrow> repeat c = repeat cpu \<and> stage c = stage cpu"
  "op_jg op cpu = Inr c \<Longrightarrow> repeat c = repeat cpu \<and> stage c = stage cpu"
  "op_jge op cpu = Inr c \<Longrightarrow> repeat c = repeat cpu \<and> stage c = stage cpu"
  "op_jl op cpu = Inr c \<Longrightarrow> repeat c = repeat cpu \<and> stage c = stage cpu"
  "op_jle op cpu = Inr c \<Longrightarrow> repeat c = repeat cpu \<and> stage c = stage cpu"
  "op_jne op cpu = Inr c \<Longrightarrow> repeat c = repeat cpu \<and> stage c = stage cpu"
  "op_jno op cpu = Inr c \<Longrightarrow> repeat c = repeat cpu \<and> stage c = stage cpu"
  "op_jnp op cpu = Inr c \<Longrightarrow> repeat c = repeat cpu \<and> stage c = stage cpu"
  "op_jns op cpu = Inr c \<Longrightarrow> repeat c = repeat cpu \<and> stage c = stage cpu"
  "op_jo op cpu = Inr c \<Longrightarrow> repeat c = repeat cpu \<and> stage c = stage cpu"
  "op_jp op cpu = Inr c \<Longrightarrow> repeat c = repeat cpu \<and> stage c = stage cpu"
  "op_js op cpu = Inr c \<Longrightarrow> repeat c = repeat cpu \<and> stage c = stage cpu"
  "op_lahf op cpu = Inr c \<Longrightarrow> repeat c = repeat cpu \<and> stage c = stage cpu"
  "op_lea op cpu = Inr c \<Longrightarrow> repeat c = repeat cpu \<and> stage c = stage cpu"
  "op_lds op cpu = Inr c \<Longrightarrow> repeat c = repeat cpu \<and> stage c = stage cpu"
  "op_les op cpu = Inr c \<Longrightarrow> repeat c = repeat cpu \<and> stage c = stage cpu"
  "op_mov op cpu = Inr c \<Longrightarrow> repeat c = repeat cpu \<and> stage c = stage cpu"
  "op_or op cpu = Inr c \<Longrightarrow> repeat c = repeat cpu \<and> stage c = stage cpu"
  "op_pop op cpu = Inr c \<Longrightarrow> repeat c = repeat cpu \<and> stage c = stage cpu"
  "op_popf op cpu = Inr c \<Longrightarrow> repeat c = repeat cpu \<and> stage c = stage cpu"
  "op_push op cpu = Inr c \<Longrightarrow> repeat c = repeat cpu \<and> stage c = stage cpu"
  "op_pushf op cpu = Inr c \<Longrightarrow> repeat c = repeat cpu \<and> stage c = stage cpu"
  "op_retnear op cpu = Inr c \<Longrightarrow> repeat c = repeat cpu \<and> stage c = stage cpu"
  "op_retfar op cpu = Inr c \<Longrightarrow> repeat c = repeat cpu \<and> stage c = stage cpu"
  "op_sahf op cpu = Inr c \<Longrightarrow> repeat c = repeat cpu \<and> stage c = stage cpu"
  "op_sbb op cpu = Inr c \<Longrightarrow> repeat c = repeat cpu \<and> stage c = stage cpu"
  "op_sub op cpu = Inr c \<Longrightarrow> repeat c = repeat cpu \<and> stage c = stage cpu"
  "op_test op cpu = Inr c \<Longrightarrow> repeat c = repeat cpu \<and> stage c = stage cpu"
  "op_wait op cpu = Inr c \<Longrightarrow> repeat c = repeat cpu \<and> stage c = stage cpu"
  "op_xchg op cpu = Inr c \<Longrightarrow> repeat c = repeat cpu \<and> stage c = stage cpu"
  "op_xor op cpu = Inr c \<Longrightarrow> repeat c = repeat cpu \<and> stage c = stage cpu"
  by (auto simp add: op_aaa_def op_aas_def op_adc_def op_add_def op_and_def op_callfar_def
      op_cbw_def op_cmp_def op_cwd_def op_daa_def op_das_def op_dec_def op_inc_def op_ja_def
      op_jae_def op_jb_def op_jbe_def op_je_def op_jg_def op_jge_def op_jl_def op_jle_def
      op_jne_def op_jno_def op_jnp_def op_jns_def op_jo_def op_jp_def op_js_def op_lahf_def
      op_lea_def op_lds_def op_les_def op_mov_def op_or_def op_pop_def op_popf_def
      op_push_def op_pushf_def op_retnear_def op_retfar_def op_sahf_def op_sbb_def
      op_sub_def op_test_def op_wait_def op_xchg_def op_xor_def
      bindE_def Let_def parts_keep dest!: handler_steps
      split: sum.splits if_splits prod.splits)

lemma call_keeps: "call f op cpu = Inr c \<Longrightarrow> repeat c = repeat cpu \<and> stage c = stage cpu"
proof -
  have basic: "\<And>g. call_basic g op cpu = Inr c \<Longrightarrow> repeat c = repeat cpu \<and> stage c = stage cpu"
  proof -
    fix g
    assume "call_basic g op cpu = Inr c"
    then show "repeat c = repeat cpu \<and> stage c = stage cpu"
      by (cases g) (simp_all add: call_basic_def handlers_keep)
  qed
  assume "call f op cpu = Inr c"
  then show ?thesis
    by (auto simp add: call_def op_imm_def bindE_def dest: basic
        split: if_splits sum.splits option.splits)
qed


lemma returns_simps:
  "returns_quiet (Some (Inl e))" "returns_quiet (Some (Inr c)) = (\<not> repeat c)"
  "\<not> returns_quiet None"
  "returns_sound (Some (Inl e))" "returns_sound (Some (Inr c)) = steady c"
  "\<not> returns_sound None"
  by (simp_all add: returns_quiet_def returns_sound_def)

lemma quiet_sound: "returns_quiet r \<Longrightarrow> returns_sound r"
  by (auto simp add: returns_quiet_def returns_sound_def steady_def
      split: option.splits sum.splits)

lemma bindF_quiet:
  "(\<And>x. m = Inr x \<Longrightarrow> returns_quiet (f x)) \<Longrightarrow> returns_quiet (bindF m f)"
  by (cases m) (simp_all add: bindF_def returns_simps)

lemma bindF_sound:
  "(\<And>x. m = Inr x \<Longrightarrow> returns_sound (f x)) \<Longrightarrow> returns_sound (bindF m f)"
  by (cases m) (simp_all add: bindF_def returns_simps)

text \<open>With the repeat flag clear, every stage returns and leaves the flag clear.\<close>

lemma exec_op_quiet: "\<not> repeat cpu \<Longrightarrow> returns_quiet (exec_op f op cpu)"
  by (subst exec_op.simps)
     (auto simp add: returns_simps dest: call_keeps split: sum.splits)

lemma stage_executing_quiet: "\<not> repeat cpu \<Longrightarrow> returns_quiet (stage_executing opp cpu)"
  by (auto simp add: stage_executing_def bindF_def returns_simps exec_op_quiet
      split: sum.splits option.splits)

lemma stage_decode_loc_quiet: "\<not> repeat cpu \<Longrightarrow> returns_quiet (stage_decode_loc opp cpu)"
  by (auto simp add: stage_decode_loc_def bindF_def Let_def returns_simps stage_executing_quiet
      split: sum.splits)

lemma dequeue_keeps:
  "cpu8086_prefetch_dequeue cpu = Inr (b, c) \<Longrightarrow> repeat c = repeat cpu \<and> stage c = stage cpu"
  by (auto simp add: cpu8086_prefetch_dequeue_def Let_def split: if_splits)

lemma dequeue_into_quiet:
  assumes "\<not> repeat cpu"
    and "\<And>b c. repeat (store b c) = repeat c"
    and "\<And>c. \<not> repeat c \<Longrightarrow> returns_quiet (k c)"
  shows "returns_quiet (dequeue_into needed store cpu k)"
  using assms
  by (auto simp add: dequeue_into_def bindF_def returns_simps dest!: dequeue_keeps
      split: sum.splits)

lemma stage_fetch_address_quiet:
  "\<not> repeat cpu \<Longrightarrow> returns_quiet (stage_fetch_address opp cpu)"
  unfolding stage_fetch_address_def
  apply (rule dequeue_into_quiet, assumption, simp)
  apply (rule dequeue_into_quiet, assumption, simp)
  apply (rule bindF_quiet)
  apply (rule dequeue_into_quiet, assumption, simp)
  apply (rule dequeue_into_quiet, assumption, simp)
  apply (simp add: Let_def stage_decode_loc_quiet)
  done

lemma stage_fetch_imm_quiet:
  "\<not> repeat cpu \<Longrightarrow> returns_quiet (stage_fetch_imm opp cpu)"
  unfolding stage_fetch_imm_def
  apply (rule dequeue_into_quiet, assumption, simp)
  apply (rule bindF_quiet)
  apply (simp add: Let_def stage_decode_loc_quiet)
  apply (intro conjI impI)
  apply (rule dequeue_into_quiet, assumption, simp)
  apply (simp add: stage_decode_loc_quiet)
  done

lemma after_modrm_quiet: "\<not> repeat cpu \<Longrightarrow> returns_quiet (after_modrm op cpu)"
  by (simp add: after_modrm_def stage_fetch_imm_quiet stage_fetch_address_quiet
      stage_decode_loc_quiet)

lemma effective_address_keeps:
  "effective_address cpu = Inr c \<Longrightarrow> repeat c = repeat cpu"
  by (auto simp add: effective_address_def bindE_def Let_def charge_def
      split: prod.splits sum.splits if_splits)

lemma modrm_byte_fetch_keeps:
  "(if modrm_byte cpu = MODRM_NONE
    then bindE (cpu8086_prefetch_dequeue cpu) (\<lambda>(b, cpu). Inr (cpu\<lparr>modrm_byte := ucast b\<rparr>))
    else Inr cpu) = Inr c \<Longrightarrow> repeat c = repeat cpu"
  by (auto simp add: bindE_def dest!: dequeue_keeps split: if_splits sum.splits)

lemma rm_fetch_keeps:
  "(if modrm_mod cpu = MOD_REG
    then bindE m (\<lambda>p. Inr (cpu\<lparr>rm := p\<rparr>))
    else effective_address cpu) = Inr c \<Longrightarrow> repeat c = repeat cpu"
  by (auto simp add: bindE_def dest!: effective_address_keeps split: if_splits sum.splits)

lemma stage_fetch_modrm_quiet:
  "\<not> repeat cpu \<Longrightarrow> returns_quiet (stage_fetch_modrm opp cpu)"
  unfolding stage_fetch_modrm_def
  apply (cases "mt cpu")
   apply (simp add: returns_simps)
  apply (simp only: if_False)
  apply (rule bindF_quiet)
  apply (drule modrm_byte_fetch_keeps)
  apply (simp only: Let_def)
  apply (rule dequeue_into_quiet, simp, simp)
  apply (rule dequeue_into_quiet, simp, simp)
  apply (rule bindF_quiet)
  apply (rule bindF_quiet)
  apply (rule bindF_quiet)
  apply (drule rm_fetch_keeps)
  apply (simp add: after_modrm_quiet)
  done

text \<open>
  A string instruction after a repeat prefix. Every string entry of the table has a
  string operand, which \<open>loc_set\<close> gives the category \<open>DECODED_NULL\<close>, and the handler
  \<open>op_mov\<close> or \<open>op_cmp\<close>, whose cycle switch has no case for that category: the loop stops
  at once when CX is zero and in the failed assertion of its first iteration otherwise.
\<close>

lemma string_entries:
  "\<forall>op \<in> set op_table. is_string op \<longrightarrow>
     (func op = Some Op_mov \<or> func op = Some Op_cmp)
     \<and> op_destination op \<noteq> LOC_RM \<and> op_destination op \<noteq> LOC_ADDR
     \<and> op_source op \<noteq> LOC_RM \<and> op_source op \<noteq> LOC_IMM \<and> op_source op \<noteq> LOC_IMM8
     \<and> op_source op \<noteq> LOC_ADDR \<and> op_source op \<noteq> LOC_SEGOFF
     \<and> (op_destination op = LOC_STRSRC \<or> op_destination op = LOC_STRDST
        \<or> op_source op = LOC_STRSRC \<or> op_source op = LOC_STRDST)"
  by code_simp

lemma op_table_at_member: "op_table_at i = Inr op \<Longrightarrow> op \<in> set op_table"
  by (auto simp add: op_table_at_def split: if_splits)

lemma loc_set_string_source_null: "loc_set cpu loc LOC_STRSRC = Inr l \<Longrightarrow> type l = DECODED_NULL"
  by (simp add: loc_set_def) (auto simp add: bindE_def Let_def split: sum.splits)

lemma loc_set_string_destination_null:
  "loc_set cpu loc LOC_STRDST = Inr l \<Longrightarrow> type l = DECODED_NULL"
  by (simp add: loc_set_def) (auto simp add: Let_def)


lemma null_operand_cycles:
  assumes "type (destination cpu) = DECODED_NULL \<or> type (source cpu) = DECODED_NULL"
  shows "mov_cycles cpu = Inl Assertion_failed" "cmp_cycles cpu = Inl Assertion_failed"
proof -
  from assms show "mov_cycles cpu = Inl Assertion_failed"
  proof
    assume "type (destination cpu) = DECODED_NULL"
    then show ?thesis by (simp add: mov_cycles_def operand_types_def)
  next
    assume "type (source cpu) = DECODED_NULL"
    then show ?thesis by (simp add: mov_cycles_def operand_types_def)
  qed
  from assms show "cmp_cycles cpu = Inl Assertion_failed"
  proof
    assume "type (destination cpu) = DECODED_NULL"
    then show ?thesis by (simp add: cmp_cycles_def operand_types_def)
  next
    assume "type (source cpu) = DECODED_NULL"
    then show ?thesis by (simp add: cmp_cycles_def operand_types_def)
  qed
qed


lemma op_mov_null_operand:
  assumes "type (destination cpu) = DECODED_NULL \<or> type (source cpu) = DECODED_NULL"
  shows "op_mov op cpu \<noteq> Inr c"
proof
  assume ok: "op_mov op cpu = Inr c"
  then obtain src c1 where r: "loc_read cpu (source cpu) = Inr (src, c1)"
    by (cases "loc_read cpu (source cpu)") (auto simp add: op_mov_def bindE_def)
  with ok obtain c2 where w: "loc_write c1 (destination c1) src = Inr c2"
    by (cases "loc_write c1 (destination c1) src") (auto simp add: op_mov_def bindE_def)
  from ok r w have m: "mov_cycles c2 = Inr c"
    by (simp add: op_mov_def bindE_def)
  from loc_read_keeps[OF r] loc_write_keeps[OF w] assms
  have "type (destination c2) = DECODED_NULL \<or> type (source c2) = DECODED_NULL"
    by simp
  then have "mov_cycles c2 = Inl Assertion_failed" by (rule null_operand_cycles)
  with m show False by simp
qed

lemma op_cmp_null_operand:
  assumes "type (destination cpu) = DECODED_NULL \<or> type (source cpu) = DECODED_NULL"
  shows "op_cmp op cpu \<noteq> Inr c"
proof
  assume ok: "op_cmp op cpu = Inr c"
  then obtain d c1 where r1: "loc_read cpu (destination cpu) = Inr (d, c1)"
    by (cases "loc_read cpu (destination cpu)") (auto simp add: op_cmp_def bindE_def)
  with ok obtain s c2 where r2: "loc_read c1 (source c1) = Inr (s, c2)"
    by (cases "loc_read c1 (source c1)") (auto simp add: op_cmp_def bindE_def)
  from ok r1 r2 obtain c3 where m: "cmp_cycles c3 = Inr c"
    and same: "destination c3 = destination c2" "source c3 = source c2"
    by (simp add: op_cmp_def bindE_def Let_def parts_keep)
  from loc_read_keeps[OF r1] loc_read_keeps[OF r2] assms same
  have "type (destination c3) = DECODED_NULL \<or> type (source c3) = DECODED_NULL"
    by simp
  then have "cmp_cycles c3 = Inl Assertion_failed" by (rule null_operand_cycles)
  with m show False by simp
qed

lemma string_call_faults:
  assumes "type (destination cpu) = DECODED_NULL \<or> type (source cpu) = DECODED_NULL"
    and "f = Op_mov \<or> f = Op_cmp"
  shows "call f op cpu \<noteq> Inr c"
  using assms(2) op_mov_null_operand[OF assms(1)] op_cmp_null_operand[OF assms(1)]
  by (auto simp add: call_def call_basic_def)


text \<open>
  With the repeat flag set and an operand left undecoded, the loop returns at once: with CX
  zero it leaves the state as it is, otherwise the handler's cycle switch fails its assertion.
\<close>

lemma exec_op_string_sound:
  assumes st: "stage cpu = CPU8086_EXECUTING"
    and ty: "type (destination cpu) = DECODED_NULL \<or> type (source cpu) = DECODED_NULL"
    and f: "f = Op_mov \<or> f = Op_cmp"
  shows "returns_sound (exec_op f op cpu)"
proof (cases "repeat cpu")
  case False
  then show ?thesis by (simp add: exec_op_quiet quiet_sound)
next
  case True
  show ?thesis
  proof (cases "reg16 cpu CX = 0")
    case zero: True
    have "exec_op f op cpu = Some (Inr cpu)"
      using True zero by (subst exec_op.simps) simp
    then show ?thesis using st by (simp add: returns_simps steady_def)
  next
    case False
    let ?c = "set_reg16 cpu CX (reg16 cpu CX - 1)"
    have "type (destination ?c) = DECODED_NULL \<or> type (source ?c) = DECODED_NULL"
      using ty by (simp add: parts_keep)
    then have "\<And>c. call f op ?c \<noteq> Inr c"
      using f by (rule string_call_faults)
    then obtain e where "call f op ?c = Inl e"
      by (cases "call f op ?c") auto
    then have "exec_op f op cpu = Some (Inl e)"
      using True False by (subst exec_op.simps) simp
    then show ?thesis by (simp add: returns_simps)
  qed
qed

lemma stage_executing_string_sound:
  assumes "stage cpu = CPU8086_EXECUTING"
    and "type (destination cpu) = DECODED_NULL \<or> type (source cpu) = DECODED_NULL"
    and "func op = Some Op_mov \<or> func op = Some Op_cmp"
  shows "returns_sound (stage_executing (Inr op) cpu)"
proof -
  obtain f where f: "func op = Some f" "f = Op_mov \<or> f = Op_cmp"
    using assms(3) by auto
  let ?c = "if repeat cpu then charge cpu 9 else cpu"
  have "stage ?c = CPU8086_EXECUTING"
    and "type (destination ?c) = DECODED_NULL \<or> type (source ?c) = DECODED_NULL"
    using assms(1,2) by (simp_all add: parts_keep)
  then have "returns_sound (exec_op f op ?c)"
    using f(2) by (rule exec_op_string_sound)
  then show ?thesis
    using f(1) by (simp add: stage_executing_def bindF_def)
qed


lemma stage_decode_loc_string_sound:
  assumes mem: "op \<in> set op_table" and str: "is_string op"
  shows "returns_sound (stage_decode_loc (Inr op) cpu)"
proof -
  from string_entries mem str
  have f: "func op = Some Op_mov \<or> func op = Some Op_cmp"
    and k: "op_destination op = LOC_STRSRC \<or> op_destination op = LOC_STRDST
            \<or> op_source op = LOC_STRSRC \<or> op_source op = LOC_STRDST"
    by blast+
  show ?thesis
  proof (cases "loc_set cpu (destination cpu) (op_destination op)")
    case (Inl e)
    then show ?thesis by (simp add: stage_decode_loc_def bindF_def returns_simps)
  next
    case d: (Inr d)
    let ?c1 = "cpu\<lparr>destination := d\<rparr>"
    show ?thesis
    proof (cases "loc_set ?c1 (source ?c1) (op_source op)")
      case (Inl e)
      then show ?thesis using d by (simp add: stage_decode_loc_def bindF_def returns_simps)
    next
      case s: (Inr s)
      let ?c2 = "cpu\<lparr>destination := d, source := s, stage := CPU8086_EXECUTING\<rparr>"
      from k d s have "type d = DECODED_NULL \<or> type s = DECODED_NULL"
        by (auto dest: loc_set_string_source_null loc_set_string_destination_null)
      then have "returns_sound (stage_executing (Inr op) ?c2)"
        using f by (intro stage_executing_string_sound) simp_all
      then show ?thesis using d s by (simp add: stage_decode_loc_def bindF_def)
    qed
  qed
qed

lemma reset_execution_regs_steady:
  "\<not> repeat (cpu8086_reset_execution_regs cpu)"
  "stage (cpu8086_reset_execution_regs cpu) = CPU8086_READY"
  by (simp_all add: cpu8086_reset_execution_regs_def)


lemma after_opcode_sound:
  assumes op: "op_table_at i = Inr op"
  shows "returns_sound
     (let cpu = (if repeat cpu \<and> \<not> is_string op then cpu\<lparr>repeat := False\<rparr> else cpu) in
      if op_destination op = LOC_RM \<or> op_source op = LOC_RM
      then stage_fetch_modrm (Inr op) (cpu\<lparr>stage := CPU8086_FETCH_MODRM\<rparr>)
      else after_modrm op cpu)"
proof (cases "repeat cpu \<and> is_string op")
  case True
  from op have mem: "op \<in> set op_table" by (rule op_table_at_member)
  with string_entries True
  have "op_destination op \<noteq> LOC_RM" "op_destination op \<noteq> LOC_ADDR"
    "op_source op \<noteq> LOC_RM" "op_source op \<noteq> LOC_IMM" "op_source op \<noteq> LOC_IMM8"
    "op_source op \<noteq> LOC_ADDR" "op_source op \<noteq> LOC_SEGOFF"
    by blast+
  then show ?thesis
    using True mem by (simp add: after_modrm_def stage_decode_loc_string_sound)
next
  case False
  let ?c = "if repeat cpu \<and> \<not> is_string op then cpu\<lparr>repeat := False\<rparr> else cpu"
  from False have q: "\<not> repeat ?c" by auto
  then have "returns_quiet (stage_fetch_modrm (Inr op) (?c\<lparr>stage := CPU8086_FETCH_MODRM\<rparr>))"
    and "returns_quiet (after_modrm op ?c)"
    by (simp_all add: stage_fetch_modrm_quiet after_modrm_quiet)
  then show ?thesis by (simp add: Let_def quiet_sound)
qed

lemma stage_ready_sound:
  assumes "stage cpu = CPU8086_READY"
  shows "returns_sound (stage_ready cpu)"
  unfolding stage_ready_def
proof (rule bindF_sound)
  fix x assume d: "cpu8086_prefetch_dequeue cpu = Inr x"
  obtain byte c where x: "x = (byte, c)" by (cases x)
  from dequeue_keeps[OF d[unfolded x]] assms have st: "stage c = CPU8086_READY" by simp
  have "returns_sound (bindF (op_table_at (unat (opcode_byte (c\<lparr>opcode_byte := ucast byte\<rparr>))))
      (\<lambda>op. let cpu = (if repeat (c\<lparr>opcode_byte := ucast byte\<rparr>) \<and> \<not> is_string op
                         then c\<lparr>opcode_byte := ucast byte\<rparr>\<lparr>repeat := False\<rparr>
                         else c\<lparr>opcode_byte := ucast byte\<rparr>) in
            if op_destination op = LOC_RM \<or> op_source op = LOC_RM
            then stage_fetch_modrm (Inr op) (cpu\<lparr>stage := CPU8086_FETCH_MODRM\<rparr>)
            else after_modrm op cpu))"
    by (rule bindF_sound) (rule after_opcode_sound)
  then show "returns_sound (case x of (byte, cpu) \<Rightarrow>
       if byte = PREFIX_G1_LOCK then Some (Inr (cpu\<lparr>cycles := 1\<rparr>))
       else if byte = PREFIX_G1_REPNZ \<or> byte = PREFIX_G1_REPZ
       then Some (Inr (cpu\<lparr>repeat := True, prefix_g1 := byte, cycles := 1\<rparr>))
       else if byte = PREFIX_G2_ES \<or> byte = PREFIX_G2_CS \<or> byte = PREFIX_G2_SS
               \<or> byte = PREFIX_G2_DS
       then Some (Inr (cpu\<lparr>prefix_g2 := byte, cycles := 1\<rparr>))
       else
         let cpu = cpu\<lparr>opcode_byte := ucast byte\<rparr> in
         bindF (op_table_at (unat (opcode_byte cpu))) (\<lambda>op.
           let cpu = (if repeat cpu \<and> \<not> is_string op then cpu\<lparr>repeat := False\<rparr> else cpu) in
           if op_destination op = LOC_RM \<or> op_source op = LOC_RM
           then stage_fetch_modrm (Inr op) (cpu\<lparr>stage := CPU8086_FETCH_MODRM\<rparr>)
           else after_modrm op cpu))"
    using st unfolding x
    by (simp add: returns_simps steady_def Let_def cong del: if_weak_cong)
qed


lemma next_stage_sound:
  assumes "steady cpu" and "stage cpu \<noteq> CPU8086_EXECUTING"
  shows "returns_sound (next_stage opp cpu)"
proof (cases "stage cpu = CPU8086_READY")
  case True
  then show ?thesis by (simp add: next_stage_def stage_ready_sound)
next
  case False
  with assms have "\<not> repeat cpu" by (simp add: steady_def)
  then have "returns_quiet (next_stage opp cpu)"
    using assms(2) False
    by (cases "stage cpu")
       (simp_all add: next_stage_def stage_fetch_modrm_quiet stage_fetch_imm_quiet
          stage_fetch_address_quiet stage_decode_loc_quiet)
  then show ?thesis by (rule quiet_sound)
qed

lemma eu_step_sound:
  assumes "steady cpu"
  shows "returns_sound (eu_step cpu)"
proof -
  let ?c1 = "if opcode_byte cpu = 0x9B \<and> test cpu then charge cpu 5 else cpu"
  have k1: "repeat ?c1 = repeat cpu" "stage ?c1 = stage cpu" by (simp_all add: parts_keep)
  have s1: "steady ?c1" using assms by (simp only: steady_def k1)
  let ?c2 = "if stage ?c1 = CPU8086_EXECUTING then cpu8086_reset_execution_regs ?c1 else ?c1"
  have "steady ?c2" "stage ?c2 \<noteq> CPU8086_EXECUTING"
    using assms by (auto simp add: steady_def k1 reset_execution_regs_steady)
  then have n: "\<And>opp. returns_sound (next_stage opp ?c2)"
    by (rule next_stage_sound)
  have eq: "eu_step cpu =
     (if cycles ?c1 > 0 then Some (Inr (?c1\<lparr>cycles := cycles ?c1 - 1\<rparr>))
      else if mt ?c1 then Some (Inr ?c1)
      else next_stage (if opcode_byte ?c2 \<noteq> OPCODE_NONE
                       then op_table_at (unat (opcode_byte ?c2))
                       else Inl Undefined_behaviour) ?c2)"
    by (simp only: eu_step_def Let_def)
  from s1 have "steady (?c1\<lparr>cycles := cycles ?c1 - 1\<rparr>)" by (simp add: steady_def)
  with s1 n show ?thesis
    by (simp only: eq returns_simps split: if_split) simp
qed

lemma biu_fetch_keeps:
  "biu_fetch cpu = Inr c \<Longrightarrow> repeat c = repeat cpu \<and> stage c = stage cpu"
  by (auto simp add: biu_fetch_def Let_def split: if_splits)

lemma biu_step_steady: "biu_step cpu = Inr c \<Longrightarrow> steady cpu \<Longrightarrow> steady c"
  by (auto simp add: biu_step_def bindE_def steady_def dest!: biu_fetch_keeps
      split: if_splits sum.splits)

lemma cpu8086_clock_sound: "steady cpu \<Longrightarrow> returns_sound (cpu8086_clock cpu)"
  unfolding cpu8086_clock_def
  by (rule bindF_sound) (auto dest: biu_step_steady intro: eu_step_sound)

lemma clocks_sound: "steady cpu \<Longrightarrow> returns_sound (clocks n cpu)"
proof (induction n arbitrary: cpu)
  case 0
  then show ?case by (simp add: returns_simps)
next
  case (Suc n)
  from cpu8086_clock_sound[OF Suc.prems] show ?case
    by (cases "cpu8086_clock cpu")
       (auto simp add: returns_simps Suc.IH split: sum.splits)
qed

lemma cpu8086_new_steady: "steady (cpu8086_new b)"
  by (simp add: steady_def cpu8086_new_def cpu8086_reset_def Let_def
      reset_execution_regs_steady)

lemma loaded_steady:
  "steady cpu \<Longrightarrow> steady (set_reg16 cpu k v)"
  "steady cpu \<Longrightarrow> steady (cpu\<lparr>bus := b\<rparr>)"
  by (simp_all add: steady_def parts_keep)

text \<open>
  Every tick returns: from the reset state, and from any state reached from it by ticks,
  however many ticks are run, the result is a fault or a state, never a call that does not
  return.
\<close>

lemma every_tick_returns: "steady cpu \<Longrightarrow> \<exists>r. clocks n cpu = Some r"
  using clocks_sound[of cpu n] by (cases "clocks n cpu") (simp_all add: returns_simps)

lemma ticks_from_reset_return: "\<exists>r. clocks n (cpu8086_new b) = Some r"
  by (rule every_tick_returns) (rule cpu8086_new_steady)


end
